theory Spec2Isabelle
  imports Complex_Main "HOL-Library.Log_Nat"
begin

section \<open>Data model (backend/app/models.py, backend/app/schemas.py)\<close>

text \<open>
  Instants (\<open>datetime\<close>) are integers on one time axis, Python's \<open>int\<close> is \<open>int\<close>,
  \<open>len\<close> results and loop counters are \<open>nat\<close>, and a Python \<open>float\<close> is the real number it
  denotes (the operations on floats are in the section on metrics).  The autoincrement
  surrogate key \<open>id\<close> and \<open>created_at\<close> play no part in any operation below and are left
  out of the rows.
\<close>

record Worker =
  worker_id :: string
  name :: string

record Workstation =
  station_id :: string
  name :: string
  station_type :: "string option"

record Event =
  timestamp :: int
  worker_id :: string
  workstation_id :: string
  event_type :: string
  confidence :: real
  count :: "int option"
  received_at :: int

record EventCreate =
  timestamp :: int
  worker_id :: string
  workstation_id :: string
  event_type :: string
  confidence :: real
  count :: "int option"

record EventIngestionResult =
  total_received :: nat
  successfully_stored :: nat
  duplicates_skipped :: nat
  errors :: "string list"

text \<open>The committed content of the three tables.\<close>

record Database =
  workers :: "Worker list"
  workstations :: "Workstation list"
  events :: "Event list"

datatype error = HTTPException nat string | ZeroDivisionError

text \<open>The field validators of \<open>EventCreate\<close>: a request body that fails them never
  reaches a route handler.\<close>

definition validate_event_type :: "string \<Rightarrow> bool" where
  "validate_event_type v \<longleftrightarrow> v \<in> set [''working'', ''idle'', ''absent'', ''product_count'']"

definition EventCreate_valid :: "EventCreate \<Rightarrow> bool" where
  "EventCreate_valid ev \<longleftrightarrow>
     validate_event_type (EventCreate.event_type ev) \<and>
     0 \<le> EventCreate.confidence ev \<and> EventCreate.confidence ev \<le> 1 \<and>
     (case EventCreate.count ev of None \<Rightarrow> True | Some c \<Rightarrow> 0 \<le> c)"

section \<open>The event table and the session (models.py, database.py)\<close>

text \<open>The columns of the unique constraint \<open>uq_event_dedup\<close>.\<close>

definition dedup_key :: "Event \<Rightarrow> int \<times> string \<times> string \<times> string" where
  "dedup_key e =
     (Event.timestamp e, Event.worker_id e, Event.workstation_id e, Event.event_type e)"

text \<open>
  A session (\<open>autocommit=False\<close>) works inside one open transaction.  \<open>add\<close> followed by
  \<open>flush\<close> sends the INSERT into that transaction: it sees the committed rows and the
  rows flushed before it, and the unique constraint answers with IntegrityError (\<open>None\<close>)
  when the key is already there.  \<open>rollback\<close> ends the open transaction and discards
  every row flushed in it; \<open>commit\<close> makes those rows part of the table.  The handlers
  open no savepoint, so the transaction is the only unit a rollback can undo.
\<close>

definition flush_add :: "Event list \<Rightarrow> Event list \<Rightarrow> Event \<Rightarrow> Event list option" where
  "flush_add committed pending row =
     (if dedup_key row \<in> set (map dedup_key (committed @ pending)) then None
      else Some (pending @ [row]))"

definition rollback :: "Event list \<Rightarrow> Event list" where
  "rollback pending = []"

definition commit :: "Database \<Rightarrow> Event list \<Rightarrow> Database" where
  "commit db pending = db\<lparr>events := events db @ pending\<rparr>"

section \<open>Ingestion (backend/app/routes/events.py)\<close>

text \<open>\<open>event.count or 0\<close>.\<close>

definition count_or_0 :: "int option \<Rightarrow> int" where
  "count_or_0 c = (case c of None \<Rightarrow> 0 | Some n \<Rightarrow> (if n = 0 then 0 else n))"

text \<open>The row built by both handlers; \<open>now\<close> is the value of \<open>datetime.utcnow()\<close>.\<close>

definition new_Event :: "EventCreate \<Rightarrow> int \<Rightarrow> Event" where
  "new_Event event now =
     \<lparr>Event.timestamp = EventCreate.timestamp event,
      Event.worker_id = EventCreate.worker_id event,
      Event.workstation_id = EventCreate.workstation_id event,
      Event.event_type = EventCreate.event_type event,
      Event.confidence = EventCreate.confidence event,
      Event.count = Some (count_or_0 (EventCreate.count event)),
      Event.received_at = now\<rparr>"

definition quoted :: "string \<Rightarrow> string" where
  "quoted s = [CHR 0x27] @ s @ [CHR 0x27]"

text \<open>
  \<open>ingest_event\<close>: an exception (\<open>Inl\<close>) leaves the committed tables as they were; on
  success the new table and the stored row are returned.
\<close>

definition ingest_event :: "Database \<Rightarrow> int \<Rightarrow> EventCreate \<Rightarrow> error + (Database \<times> Event)" where
  "ingest_event db now event =
     (case find (\<lambda>w. Worker.worker_id w = EventCreate.worker_id event) (workers db) of
        None \<Rightarrow>
          Inl (HTTPException 400
                (''Worker '' @ quoted (EventCreate.worker_id event) @ '' not found''))
      | Some worker \<Rightarrow>
         (case find (\<lambda>s. Workstation.station_id s = EventCreate.workstation_id event) (workstations db) of
            None \<Rightarrow>
              Inl (HTTPException 400
                    (''Workstation '' @ quoted (EventCreate.workstation_id event) @ '' not found''))
          | Some workstation \<Rightarrow>
             (let db_event = new_Event event now
              in case flush_add (events db) [] db_event of
                   Some pending \<Rightarrow> Inr (commit db pending, db_event)
                 | None \<Rightarrow>
                     Inl (HTTPException 409
                       ''Duplicate event detected (same timestamp, worker, workstation, event_type)''))))"

text \<open>
  The local variables of \<open>ingest_events_batch\<close> that change in its loop, together with
  the rows flushed so far in the open transaction and the number of clock readings made.
\<close>

record batch_state =
  pending :: "Event list"
  stored :: nat
  duplicates :: nat
  diagnostics :: "string list"
  clock_reads :: nat

text \<open>
  The \<open>for event in batch.events\<close> loop.  \<open>utcnow k\<close> is the value of the \<open>k\<close>-th call of
  \<open>datetime.utcnow()\<close> in this request.  \<open>diagnostics\<close> is the local list \<open>errors\<close>.
\<close>

fun batch_loop ::
  "string set \<Rightarrow> string set \<Rightarrow> Event list \<Rightarrow> (nat \<Rightarrow> int) \<Rightarrow> EventCreate list
     \<Rightarrow> batch_state \<Rightarrow> batch_state" where
  "batch_loop valid_workers valid_stations committed utcnow [] st = st"
| "batch_loop valid_workers valid_stations committed utcnow (event # rest) st =
     (if EventCreate.worker_id event \<notin> valid_workers then
        batch_loop valid_workers valid_stations committed utcnow rest
          (st\<lparr>diagnostics := diagnostics st @ [''Unknown worker_id: '' @ EventCreate.worker_id event]\<rparr>)
      else if EventCreate.workstation_id event \<notin> valid_stations then
        batch_loop valid_workers valid_stations committed utcnow rest
          (st\<lparr>diagnostics :=
                diagnostics st @ [''Unknown workstation_id: '' @ EventCreate.workstation_id event]\<rparr>)
      else
        (let db_event = new_Event event (utcnow (clock_reads st));
             st1 = st\<lparr>clock_reads := Suc (clock_reads st)\<rparr>
         in case flush_add committed (pending st1) db_event of
              Some flushed \<Rightarrow>
                batch_loop valid_workers valid_stations committed utcnow rest
                  (st1\<lparr>pending := flushed, stored := stored st1 + 1\<rparr>)
            | None \<Rightarrow>
                batch_loop valid_workers valid_stations committed utcnow rest
                  (st1\<lparr>pending := rollback (pending st1), duplicates := duplicates st1 + 1\<rparr>)))"

definition ingest_events_batch ::
  "Database \<Rightarrow> (nat \<Rightarrow> int) \<Rightarrow> EventCreate list \<Rightarrow> Database \<times> EventIngestionResult" where
  "ingest_events_batch db utcnow batch_events =
     (let total = length batch_events;
          valid_workers = set (map Worker.worker_id (workers db));
          valid_stations = set (map Workstation.station_id (workstations db));
          st = batch_loop valid_workers valid_stations (events db) utcnow batch_events
                 \<lparr>pending = [], stored = 0, duplicates = 0, diagnostics = [], clock_reads = 0\<rparr>
      in (commit db (pending st),
          \<lparr>total_received = total,
           successfully_stored = stored st,
           duplicates_skipped = duplicates st,
           errors = take 10 (diagnostics st)\<rparr>))"

section \<open>Metrics (backend/app/config.py, backend/app/schemas.py, backend/app/services/metrics.py)\<close>

definition EVENT_DURATION_MINUTES :: nat where
  "EVENT_DURATION_MINUTES = 5"

record WorkerMetrics =
  worker_id :: string
  worker_name :: string
  total_active_time_minutes :: real
  total_idle_time_minutes :: real
  total_absent_time_minutes :: real
  utilization_percentage :: real
  total_units_produced :: int
  units_per_hour :: real
  event_count :: nat

record WorkstationMetrics =
  station_id :: string
  station_name :: string
  station_type :: "string option"
  occupancy_time_minutes :: real
  working_time_minutes :: real
  idle_time_minutes :: real
  utilization_percentage :: real
  total_units_produced :: int
  throughput_rate :: real
  event_count :: nat

record FactoryMetrics =
  total_productive_time_minutes :: real
  total_idle_time_minutes :: real
  total_production_count :: int
  average_production_rate :: real
  average_worker_utilization :: real
  average_workstation_utilization :: real
  total_events :: nat
  active_workers :: nat
  active_workstations :: nat

record DashboardSummary =
  factory_metrics :: FactoryMetrics
  worker_metrics :: "WorkerMetrics list"
  workstation_metrics :: "WorkstationMetrics list"
  last_updated :: int

subsection \<open>Python arithmetic\<close>

text \<open>
  A Python \<open>float\<close> is a binary64 number, and every operation on floats rounds its exact
  result to one.  The metrics code uses six such operations, and they are parameters of
  its model: a value of type \<open>float_ops\<close> says what each of them returns.  A float is
  represented by the real number it denotes.
  \<^item> \<open>fint n\<close>: the conversion of the \<open>int\<close> operand \<open>n\<close> of a mixed operation;
  \<^item> \<open>idiv a b\<close>: \<open>a / b\<close> for two \<open>int\<close>s, which Python rounds once, from the exact quotient;
  \<^item> \<open>fdiv x y\<close> and \<open>fmul x y\<close>: \<open>x / y\<close> and \<open>x * y\<close> for two floats;
  \<^item> \<open>fsum xs\<close>: the builtin \<open>sum\<close> over floats;
  \<^item> \<open>fround2 x\<close>: \<open>round(x, 2)\<close> for a float \<open>x\<close>.
  Three conversions are written as exact: the literal \<open>100\<close> in \<open>q * 100\<close>, the length of a
  list of metrics records in \<open>sum(...) / len(...)\<close>, and the minutes (a number of events
  times \<open>EVENT_DURATION_MINUTES\<close>, which \<open>round\<close> returns unchanged, being an \<open>int\<close>) stored
  in a float field.  An \<open>int\<close> below \<open>2^53\<close> converts exactly, and an SQLite file cannot hold
  \<open>2^53 / 5\<close> rows.
\<close>

record float_ops =
  fint :: "int \<Rightarrow> real"
  idiv :: "int \<Rightarrow> int \<Rightarrow> real"
  fdiv :: "real \<Rightarrow> real \<Rightarrow> real"
  fmul :: "real \<Rightarrow> real \<Rightarrow> real"
  fsum :: "real list \<Rightarrow> real"
  fround2 :: "real \<Rightarrow> real"

text \<open>\<open>a / b\<close> raises ZeroDivisionError when \<open>b\<close> is zero, for \<open>int\<close>s and for floats.\<close>

definition int_truediv :: "float_ops \<Rightarrow> int \<Rightarrow> int \<Rightarrow> error + real" where
  "int_truediv ops a b = (if b = 0 then Inl ZeroDivisionError else Inr (idiv ops a b))"

definition float_truediv :: "float_ops \<Rightarrow> real \<Rightarrow> real \<Rightarrow> error + real" where
  "float_truediv ops x y = (if y = 0 then Inl ZeroDivisionError else Inr (fdiv ops x y))"

text \<open>Sequencing: an exception raised by the first computation ends the whole one.\<close>

definition bind_result :: "error + 'a \<Rightarrow> ('a \<Rightarrow> error + 'b) \<Rightarrow> error + 'b" where
  "bind_result r f = (case r of Inl e \<Rightarrow> Inl e | Inr v \<Rightarrow> f v)"

subsection \<open>The operations of CPython on binary64\<close>

text \<open>
  \<open>fl x\<close> is the binary64 number nearest to \<open>x\<close>, a tie going to the even significand:
  \<open>x\<close> is scaled so that its integer part has 53 bits, rounded to an integer and scaled
  back.  The exponent is not bounded here: \<open>fl\<close> is the rounding of IEEE 754 wherever that
  neither overflows nor produces a subnormal number, so for magnitudes between \<open>2^-1022\<close>
  and \<open>2^1023\<close>.
\<close>

definition round_half_even :: "real \<Rightarrow> int" where
  "round_half_even x =
     (let f = \<lfloor>x\<rfloor>; d = x - of_int f
      in if d < 1 / 2 then f else if 1 / 2 < d then f + 1 else if even f then f else f + 1)"

text \<open>The \<open>k\<close> with \<open>2^k \<le> |x| < 2^(k+1)\<close>, for \<open>x\<close> other than \<open>0\<close>.\<close>

definition exponent :: "real \<Rightarrow> int" where
  "exponent x =
     (if 1 \<le> \<bar>x\<bar> then bitlen \<lfloor>\<bar>x\<bar>\<rfloor> - 1 else - bitlen (\<lceil>1 / \<bar>x\<bar>\<rceil> - 1))"

definition fl :: "real \<Rightarrow> real" where
  "fl x =
     (if x = 0 then 0
      else of_int (round_half_even (x / 2 powi (exponent x - 52))) * 2 powi (exponent x - 52))"

text \<open>
  The builtin \<open>sum\<close> starts from the \<open>int\<close> \<open>0\<close>.  Up to Python 3.11 it adds the floats from
  left to right.  From Python 3.12 on it adds the same way and keeps the rounding errors
  of the additions in a second float \<open>c\<close> (Neumaier's compensated summation), which it
  adds to the total at the end unless \<open>c\<close> is zero.
\<close>

datatype summation = Plain | Compensated

definition sum_plain :: "real list \<Rightarrow> real" where
  "sum_plain xs = foldl (\<lambda>total x. fl (total + x)) 0 xs"

fun compensated :: "real \<Rightarrow> real \<Rightarrow> real list \<Rightarrow> real" where
  "compensated f_result c [] = (if c \<noteq> 0 then fl (f_result + c) else f_result)"
| "compensated f_result c (x # xs) =
     (let t = fl (f_result + x);
          c' = (if \<bar>x\<bar> \<le> \<bar>f_result\<bar> then fl (c + fl (fl (f_result - t) + x))
                else fl (c + fl (fl (x - t) + f_result)))
      in compensated t c' xs)"

definition sum_compensated :: "real list \<Rightarrow> real" where
  "sum_compensated xs = (case xs of [] \<Rightarrow> 0 | x # rest \<Rightarrow> compensated (fl (0 + x)) 0 rest)"

text \<open>
  The six operations as CPython computes them.  \<open>round(x, 2)\<close> rounds the exact value of
  the float \<open>x\<close> to two decimals, a tie going to the even digit, and returns the float
  nearest to that decimal number.
\<close>

definition binary64 :: "summation \<Rightarrow> float_ops" where
  "binary64 version =
     \<lparr>fint = (\<lambda>n. fl (of_int n)),
      idiv = (\<lambda>a b. fl (of_int a / of_int b)),
      fdiv = (\<lambda>x y. fl (x / y)),
      fmul = (\<lambda>x y. fl (x * y)),
      fsum = (case version of Plain \<Rightarrow> sum_plain | Compensated \<Rightarrow> sum_compensated),
      fround2 = (\<lambda>x. fl (of_int (round_half_even (x * 100)) / 100))\<rparr>"

subsection \<open>Queries\<close>

text \<open>
  \<open>if start_time: ... filter(Event.timestamp >= start_time)\<close> and the same for
  \<open>end_time\<close>; a \<open>datetime\<close> is always true, so the test is \<open>is not None\<close>.
\<close>

definition apply_time_filters :: "int option \<Rightarrow> int option \<Rightarrow> Event list \<Rightarrow> Event list" where
  "apply_time_filters start_time end_time events_query =
     (let q1 = (case start_time of None \<Rightarrow> events_query
                | Some s \<Rightarrow> filter (\<lambda>e. s \<le> Event.timestamp e) events_query);
          q2 = (case end_time of None \<Rightarrow> q1
                | Some t \<Rightarrow> filter (\<lambda>e. Event.timestamp e \<le> t) q1)
      in q2)"

text \<open>
  \<open>if worker_id:\<close> and \<open>if station_id:\<close> test an optional string: \<open>None\<close> and the empty
  string are both false, and then the query is not narrowed.  (The arguments are called
  \<open>wid\<close> and \<open>sid\<close> below, the source's names being those of columns.)
\<close>

definition truthy :: "string option \<Rightarrow> string option" where
  "truthy s = (case s of None \<Rightarrow> None | Some v \<Rightarrow> (if v = [] then None else Some v))"

definition count_type :: "string \<Rightarrow> Event list \<Rightarrow> nat" where
  "count_type ty evs = length (filter (\<lambda>e. Event.event_type e = ty) evs)"

definition sum_units :: "Event list \<Rightarrow> int" where
  "sum_units evs =
     sum_list (map (\<lambda>e. count_or_0 (Event.count e))
                   (filter (\<lambda>e. Event.event_type e = ''product_count'') evs))"

subsection \<open>\<open>compute_worker_metrics\<close>\<close>

text \<open>The body of the loop over workers, for one worker and the events queried for it.\<close>

definition worker_metrics_row :: "float_ops \<Rightarrow> Worker \<Rightarrow> Event list \<Rightarrow> error + WorkerMetrics" where
  "worker_metrics_row ops worker evs =
     (let working_count = count_type ''working'' evs;
          idle_count = count_type ''idle'' evs;
          absent_count = count_type ''absent'' evs;
          total_units = sum_units evs;
          active_time = working_count * EVENT_DURATION_MINUTES;
          idle_time = idle_count * EVENT_DURATION_MINUTES;
          absent_time = absent_count * EVENT_DURATION_MINUTES;
          total_present_time = active_time + idle_time
      in bind_result
           (if total_present_time > 0
            then bind_result (int_truediv ops (int active_time) (int total_present_time))
                   (\<lambda>q. Inr (fmul ops q 100))
            else Inr 0)
        (\<lambda>utilization. bind_result
           (if active_time > 0 then int_truediv ops (int active_time) 60 else Inr 0)
        (\<lambda>active_hours. bind_result
           (if active_hours > 0 then float_truediv ops (fint ops total_units) active_hours
            else Inr 0)
        (\<lambda>units_per_hour.
           Inr \<lparr>WorkerMetrics.worker_id = Worker.worker_id worker,
                worker_name = Worker.name worker,
                total_active_time_minutes = real active_time,
                WorkerMetrics.total_idle_time_minutes = real idle_time,
                total_absent_time_minutes = real absent_time,
                WorkerMetrics.utilization_percentage = fround2 ops utilization,
                WorkerMetrics.total_units_produced = total_units,
                units_per_hour = fround2 ops units_per_hour,
                WorkerMetrics.event_count = length evs\<rparr>))))"

fun worker_metrics_loop ::
  "float_ops \<Rightarrow> Database \<Rightarrow> int option \<Rightarrow> int option \<Rightarrow> Worker list
     \<Rightarrow> error + WorkerMetrics list" where
  "worker_metrics_loop ops db start_time end_time [] = Inr []"
| "worker_metrics_loop ops db start_time end_time (worker # rest) =
     bind_result
       (worker_metrics_row ops worker
          (apply_time_filters start_time end_time
             (filter (\<lambda>e. Event.worker_id e = Worker.worker_id worker) (events db))))
       (\<lambda>m. bind_result (worker_metrics_loop ops db start_time end_time rest)
          (\<lambda>ms. Inr (m # ms)))"

definition compute_worker_metrics ::
  "float_ops \<Rightarrow> Database \<Rightarrow> string option \<Rightarrow> int option \<Rightarrow> int option
     \<Rightarrow> error + WorkerMetrics list" where
  "compute_worker_metrics ops db wid start_time end_time =
     (let workers_query =
            (case truthy wid of
               Some v \<Rightarrow> filter (\<lambda>w. Worker.worker_id w = v) (workers db)
             | None \<Rightarrow> workers db)
      in worker_metrics_loop ops db start_time end_time workers_query)"

subsection \<open>\<open>compute_workstation_metrics\<close>\<close>

definition workstation_metrics_row ::
  "float_ops \<Rightarrow> Workstation \<Rightarrow> Event list \<Rightarrow> error + WorkstationMetrics" where
  "workstation_metrics_row ops station evs =
     (let working_count = count_type ''working'' evs;
          idle_count = count_type ''idle'' evs;
          total_units = sum_units evs;
          working_time = working_count * EVENT_DURATION_MINUTES;
          idle_time = idle_count * EVENT_DURATION_MINUTES;
          occupancy_time = working_time + idle_time
      in bind_result
           (if occupancy_time > 0
            then bind_result (int_truediv ops (int working_time) (int occupancy_time))
                   (\<lambda>q. Inr (fmul ops q 100))
            else Inr 0)
        (\<lambda>utilization. bind_result
           (if occupancy_time > 0 then int_truediv ops (int occupancy_time) 60 else Inr 0)
        (\<lambda>occupancy_hours. bind_result
           (if occupancy_hours > 0 then float_truediv ops (fint ops total_units) occupancy_hours
            else Inr 0)
        (\<lambda>throughput_rate.
           Inr \<lparr>WorkstationMetrics.station_id = Workstation.station_id station,
                station_name = Workstation.name station,
                WorkstationMetrics.station_type = Workstation.station_type station,
                occupancy_time_minutes = real occupancy_time,
                working_time_minutes = real working_time,
                idle_time_minutes = real idle_time,
                WorkstationMetrics.utilization_percentage = fround2 ops utilization,
                WorkstationMetrics.total_units_produced = total_units,
                throughput_rate = fround2 ops throughput_rate,
                WorkstationMetrics.event_count = length evs\<rparr>))))"

fun workstation_metrics_loop ::
  "float_ops \<Rightarrow> Database \<Rightarrow> int option \<Rightarrow> int option \<Rightarrow> Workstation list
     \<Rightarrow> error + WorkstationMetrics list" where
  "workstation_metrics_loop ops db start_time end_time [] = Inr []"
| "workstation_metrics_loop ops db start_time end_time (station # rest) =
     bind_result
       (workstation_metrics_row ops station
          (apply_time_filters start_time end_time
             (filter (\<lambda>e. Event.workstation_id e = Workstation.station_id station) (events db))))
       (\<lambda>m. bind_result (workstation_metrics_loop ops db start_time end_time rest)
          (\<lambda>ms. Inr (m # ms)))"

definition compute_workstation_metrics ::
  "float_ops \<Rightarrow> Database \<Rightarrow> string option \<Rightarrow> int option \<Rightarrow> int option
     \<Rightarrow> error + WorkstationMetrics list" where
  "compute_workstation_metrics ops db sid start_time end_time =
     (let stations_query =
            (case truthy sid of
               Some v \<Rightarrow> filter (\<lambda>s. Workstation.station_id s = v) (workstations db)
             | None \<Rightarrow> workstations db)
      in workstation_metrics_loop ops db start_time end_time stations_query)"

subsection \<open>\<open>compute_factory_metrics\<close> and \<open>get_dashboard_summary\<close>\<close>

definition compute_factory_metrics ::
  "float_ops \<Rightarrow> Database \<Rightarrow> int option \<Rightarrow> int option \<Rightarrow> error + FactoryMetrics" where
  "compute_factory_metrics ops db start_time end_time =
     (let evs = apply_time_filters start_time end_time (events db);
          working_count = count_type ''working'' evs;
          idle_count = count_type ''idle'' evs;
          total_production = sum_units evs;
          total_productive_time = working_count * EVENT_DURATION_MINUTES;
          total_idle_time = idle_count * EVENT_DURATION_MINUTES
      in bind_result
           (if total_productive_time > 0 then int_truediv ops (int total_productive_time) 60
            else Inr 0)
        (\<lambda>productive_hours. bind_result
           (if productive_hours > 0
            then float_truediv ops (fint ops total_production) productive_hours
            else Inr 0)
        (\<lambda>avg_production_rate. bind_result
           (compute_worker_metrics ops db None start_time end_time)
        (\<lambda>worker_metrics. bind_result
           (compute_workstation_metrics ops db None start_time end_time)
        (\<lambda>station_metrics.
           (let active_workers = filter (\<lambda>w. WorkerMetrics.event_count w > 0) worker_metrics;
                active_stations =
                  filter (\<lambda>s. WorkstationMetrics.event_count s > 0) station_metrics
            in bind_result
                 (if active_workers \<noteq> []
                  then float_truediv ops
                         (fsum ops (map WorkerMetrics.utilization_percentage active_workers))
                         (real (length active_workers))
                  else Inr 0)
              (\<lambda>avg_worker_util. bind_result
                 (if active_stations \<noteq> []
                  then float_truediv ops
                         (fsum ops
                            (map WorkstationMetrics.utilization_percentage active_stations))
                         (real (length active_stations))
                  else Inr 0)
              (\<lambda>avg_station_util.
                 Inr \<lparr>total_productive_time_minutes = real total_productive_time,
                      FactoryMetrics.total_idle_time_minutes = real total_idle_time,
                      total_production_count = total_production,
                      average_production_rate = fround2 ops avg_production_rate,
                      average_worker_utilization = fround2 ops avg_worker_util,
                      average_workstation_utilization = fround2 ops avg_station_util,
                      total_events = length evs,
                      FactoryMetrics.active_workers = length active_workers,
                      active_workstations = length active_stations\<rparr>))))))))"

definition get_dashboard_summary ::
  "float_ops \<Rightarrow> Database \<Rightarrow> int \<Rightarrow> int option \<Rightarrow> int option \<Rightarrow> error + DashboardSummary" where
  "get_dashboard_summary ops db now start_time end_time =
     bind_result (compute_factory_metrics ops db start_time end_time)
       (\<lambda>fm. bind_result (compute_worker_metrics ops db None start_time end_time)
       (\<lambda>wm. bind_result (compute_workstation_metrics ops db None start_time end_time)
       (\<lambda>sm. Inr \<lparr>factory_metrics = fm, worker_metrics = wm,
                   workstation_metrics = sm, last_updated = now\<rparr>)))"

section \<open>Metrics routes (backend/app/routes/metrics.py)\<close>

text \<open>\<open>metrics[0]\<close> is read only when the list is not empty.\<close>

definition get_worker_metrics ::
  "float_ops \<Rightarrow> Database \<Rightarrow> string \<Rightarrow> int option \<Rightarrow> int option \<Rightarrow> error + WorkerMetrics" where
  "get_worker_metrics ops db wid start_time end_time =
     bind_result (compute_worker_metrics ops db (Some wid) start_time end_time)
       (\<lambda>metrics. case metrics of
          [] \<Rightarrow>
            Inr \<lparr>WorkerMetrics.worker_id = wid,
                 worker_name = ''Unknown'',
                 total_active_time_minutes = 0,
                 WorkerMetrics.total_idle_time_minutes = 0,
                 total_absent_time_minutes = 0,
                 WorkerMetrics.utilization_percentage = 0,
                 WorkerMetrics.total_units_produced = 0,
                 units_per_hour = 0,
                 WorkerMetrics.event_count = 0\<rparr>
        | m # _ \<Rightarrow> Inr m)"

definition get_workstation_metrics ::
  "float_ops \<Rightarrow> Database \<Rightarrow> string \<Rightarrow> int option \<Rightarrow> int option
     \<Rightarrow> error + WorkstationMetrics" where
  "get_workstation_metrics ops db sid start_time end_time =
     bind_result (compute_workstation_metrics ops db (Some sid) start_time end_time)
       (\<lambda>metrics. case metrics of
          [] \<Rightarrow>
            Inr \<lparr>WorkstationMetrics.station_id = sid,
                 station_name = ''Unknown'',
                 WorkstationMetrics.station_type = None,
                 occupancy_time_minutes = 0,
                 working_time_minutes = 0,
                 idle_time_minutes = 0,
                 WorkstationMetrics.utilization_percentage = 0,
                 WorkstationMetrics.total_units_produced = 0,
                 throughput_rate = 0,
                 WorkstationMetrics.event_count = 0\<rparr>
        | m # _ \<Rightarrow> Inr m)"

section \<open>Notions used in the statements\<close>

text \<open>
  The definitions of this section are not code of the repository.  They say, in the
  words of the specification, what the statements below compare the code with.
\<close>

text \<open>
  Both references of a submitted event are registered.
\<close>

definition refs_known :: "Database \<Rightarrow> EventCreate \<Rightarrow> bool" where
  "refs_known db ev \<longleftrightarrow>
     EventCreate.worker_id ev \<in> set (map Worker.worker_id (workers db)) \<and>
     EventCreate.workstation_id ev \<in> set (map Workstation.station_id (workstations db))"

text \<open>
  The dedup key of a submitted event.
\<close>

definition submitted_key :: "EventCreate \<Rightarrow> int \<times> string \<times> string \<times> string" where
  "submitted_key ev =
     (EventCreate.timestamp ev, EventCreate.worker_id ev, EventCreate.workstation_id ev,
      EventCreate.event_type ev)"

text \<open>
  The time window of a metrics query: both bounds are inclusive and apply to the
  event's \<open>timestamp\<close>; an absent bound imposes nothing.
\<close>

definition in_window :: "int option \<Rightarrow> int option \<Rightarrow> int \<Rightarrow> bool" where
  "in_window start_time end_time t \<longleftrightarrow>
     (case start_time of None \<Rightarrow> True | Some s \<Rightarrow> s \<le> t) \<and>
     (case end_time of None \<Rightarrow> True | Some u \<Rightarrow> t \<le> u)"

text \<open>
  The stored events in the window: all of them, those of one worker, those of one
  workstation; and whether a worker or a workstation has at least one.
\<close>

definition window_events :: "Database \<Rightarrow> int option \<Rightarrow> int option \<Rightarrow> Event list" where
  "window_events db st en = filter (\<lambda>e. in_window st en (Event.timestamp e)) (events db)"

definition worker_events :: "Database \<Rightarrow> int option \<Rightarrow> int option \<Rightarrow> string \<Rightarrow> Event list" where
  "worker_events db start_time end_time wid =
     filter (\<lambda>e. Event.worker_id e = wid \<and> in_window start_time end_time (Event.timestamp e))
       (events db)"

definition station_events :: "Database \<Rightarrow> int option \<Rightarrow> int option \<Rightarrow> string \<Rightarrow> Event list" where
  "station_events db start_time end_time sid =
     filter (\<lambda>e. Event.workstation_id e = sid \<and> in_window start_time end_time (Event.timestamp e))
       (events db)"

definition has_worker_event :: "Database \<Rightarrow> int option \<Rightarrow> int option \<Rightarrow> string \<Rightarrow> bool" where
  "has_worker_event db start_time end_time wid \<longleftrightarrow>
     (\<exists>e\<in>set (events db).
        Event.worker_id e = wid \<and> in_window start_time end_time (Event.timestamp e))"

definition has_station_event :: "Database \<Rightarrow> int option \<Rightarrow> int option \<Rightarrow> string \<Rightarrow> bool" where
  "has_station_event db start_time end_time sid \<longleftrightarrow>
     (\<exists>e\<in>set (events db).
        Event.workstation_id e = sid \<and> in_window start_time end_time (Event.timestamp e))"

text \<open>
  The formulas of the specification, evaluated with the float operations \<open>ops\<close> and not
  yet rounded to two decimals.  Utilization: \<open>active / (active + idle) * 100\<close>, \<open>0\<close> when
  the denominator is \<open>0\<close>.  Rate per hour: \<open>units / (minutes / 60)\<close>, \<open>0\<close> when \<open>minutes\<close> is
  \<open>0\<close> (and when the hours are not positive, which no division of binary64 makes of
  positive minutes).  Mean: the sum over the number of values, \<open>0\<close> for no value.
\<close>

definition float_utilization :: "float_ops \<Rightarrow> nat \<Rightarrow> nat \<Rightarrow> real" where
  "float_utilization ops active idle =
     (if active + idle = 0 then 0
      else fmul ops (idiv ops (int active) (int (active + idle))) 100)"

definition float_rate :: "float_ops \<Rightarrow> int \<Rightarrow> nat \<Rightarrow> real" where
  "float_rate ops units minutes =
     (if minutes = 0 then 0
      else if 0 < idiv ops (int minutes) 60
        then fdiv ops (fint ops units) (idiv ops (int minutes) 60)
        else 0)"

definition float_mean :: "float_ops \<Rightarrow> real list \<Rightarrow> real" where
  "float_mean ops xs = (if xs = [] then 0 else fdiv ops (fsum ops xs) (real (length xs)))"

text \<open>
  The minutes a number of events stands for.
\<close>

definition minutes_of :: "string \<Rightarrow> Event list \<Rightarrow> nat" where
  "minutes_of ty evs = count_type ty evs * EVENT_DURATION_MINUTES"

text \<open>
  The utilization of a worker over a window, from the events of the store, not yet
  rounded to two decimals.
\<close>

definition full_precision_utilization ::
  "float_ops \<Rightarrow> Database \<Rightarrow> int option \<Rightarrow> int option \<Rightarrow> string \<Rightarrow> real" where
  "full_precision_utilization ops db start_time end_time wid =
     float_utilization ops
       (minutes_of ''working'' (worker_events db start_time end_time wid))
       (minutes_of ''idle'' (worker_events db start_time end_time wid))"

text \<open>
  The fully zeroed metrics record of a worker.
\<close>

definition zero_worker_metrics :: "string \<Rightarrow> string \<Rightarrow> WorkerMetrics" where
  "zero_worker_metrics wid nm =
     \<lparr>WorkerMetrics.worker_id = wid, worker_name = nm,
      total_active_time_minutes = 0, WorkerMetrics.total_idle_time_minutes = 0,
      total_absent_time_minutes = 0, WorkerMetrics.utilization_percentage = 0,
      WorkerMetrics.total_units_produced = 0, units_per_hour = 0,
      WorkerMetrics.event_count = 0\<rparr>"

text \<open>
  The workers and workstations a query with an optional identifier ranges over.
\<close>

definition selected_workers :: "Database \<Rightarrow> string option \<Rightarrow> Worker list" where
  "selected_workers db wid =
     (case wid of None \<Rightarrow> workers db
      | Some v \<Rightarrow> if v = [] then workers db
                  else filter (\<lambda>w. Worker.worker_id w = v) (workers db))"

definition selected_stations :: "Database \<Rightarrow> string option \<Rightarrow> Workstation list" where
  "selected_stations db sid =
     (case sid of None \<Rightarrow> workstations db
      | Some v \<Rightarrow> if v = [] then workstations db
                  else filter (\<lambda>s. Workstation.station_id s = v) (workstations db))"

text \<open>
  The records that the loop bodies of \<open>compute_worker_metrics\<close> and
  \<open>compute_workstation_metrics\<close> return, written without the exception plumbing.  The
  lemmas of the section on the metrics engine prove that the loop bodies return exactly
  these.
\<close>

definition worker_row :: "float_ops \<Rightarrow> Worker \<Rightarrow> Event list \<Rightarrow> WorkerMetrics" where
  "worker_row ops w evs =
     \<lparr>WorkerMetrics.worker_id = Worker.worker_id w,
      worker_name = Worker.name w,
      total_active_time_minutes = real (minutes_of ''working'' evs),
      WorkerMetrics.total_idle_time_minutes = real (minutes_of ''idle'' evs),
      total_absent_time_minutes = real (minutes_of ''absent'' evs),
      WorkerMetrics.utilization_percentage =
        fround2 ops (float_utilization ops (minutes_of ''working'' evs) (minutes_of ''idle'' evs)),
      WorkerMetrics.total_units_produced = sum_units evs,
      units_per_hour =
        fround2 ops (float_rate ops (sum_units evs) (minutes_of ''working'' evs)),
      WorkerMetrics.event_count = length evs\<rparr>"

definition station_row :: "float_ops \<Rightarrow> Workstation \<Rightarrow> Event list \<Rightarrow> WorkstationMetrics" where
  "station_row ops s evs =
     \<lparr>WorkstationMetrics.station_id = Workstation.station_id s,
      station_name = Workstation.name s,
      WorkstationMetrics.station_type = Workstation.station_type s,
      occupancy_time_minutes = real (minutes_of ''working'' evs + minutes_of ''idle'' evs),
      working_time_minutes = real (minutes_of ''working'' evs),
      idle_time_minutes = real (minutes_of ''idle'' evs),
      WorkstationMetrics.utilization_percentage =
        fround2 ops (float_utilization ops (minutes_of ''working'' evs) (minutes_of ''idle'' evs)),
      WorkstationMetrics.total_units_produced = sum_units evs,
      throughput_rate =
        fround2 ops (float_rate ops (sum_units evs)
                       (minutes_of ''working'' evs + minutes_of ''idle'' evs)),
      WorkstationMetrics.event_count = length evs\<rparr>"

section \<open>Example stores\<close>

text \<open>
  One worker, one workstation, no event; and an observation of that worker at that
  workstation.
\<close>

definition line_db :: Database where
  "line_db =
     \<lparr>workers = [\<lparr>Worker.worker_id = ''W1'', name = ''Alice''\<rparr>],
      workstations =
        [\<lparr>Workstation.station_id = ''S1'', name = ''Assembly 1'', station_type = Some ''Assembly''\<rparr>],
      events = []\<rparr>"

definition obs :: "int \<Rightarrow> string \<Rightarrow> int option \<Rightarrow> EventCreate" where
  "obs t ty c =
     \<lparr>EventCreate.timestamp = t, worker_id = ''W1'', workstation_id = ''S1'',
      event_type = ty, confidence = 93 / 100, count = c\<rparr>"

text \<open>
  Ten \<open>working\<close> and five \<open>idle\<close> events of the worker.
\<close>

definition shift_db :: Database where
  "shift_db = line_db\<lparr>events :=
     map (\<lambda>t. new_Event (obs t ''working'' None) 0) [1, 2, 3, 4, 5, 6, 7, 8, 9, 10] @
     map (\<lambda>t. new_Event (obs t ''idle'' None) 0) [11, 12, 13, 14, 15]\<rparr>"

text \<open>
  Three \<open>absent\<close> events and nothing else.
\<close>

definition absent_db :: Database where
  "absent_db = line_db\<lparr>events := map (\<lambda>t. new_Event (obs t ''absent'' None) 0) [1, 2, 3]\<rparr>"

text \<open>
  Events at the instants 9, 10, 20 and 21, all received at instant 1000: \<open>working\<close> at 9
  and 10, three units counted at 20, \<open>idle\<close> at 21.
\<close>

definition window_db :: Database where
  "window_db = line_db\<lparr>events :=
     [new_Event (obs 9 ''working'' None) 1000, new_Event (obs 10 ''working'' None) 1000,
      new_Event (obs 20 ''product_count'' (Some 3)) 1000, new_Event (obs 21 ''idle'' None) 1000]\<rparr>"

text \<open>
  Two workers and two workstations; only the first worker and the first workstation
  have events: four \<open>working\<close> and one \<open>idle\<close>.
\<close>

definition crew_db :: Database where
  "crew_db =
     \<lparr>workers = [\<lparr>Worker.worker_id = ''W1'', name = ''Alice''\<rparr>,
                 \<lparr>Worker.worker_id = ''W2'', name = ''Bob''\<rparr>],
      workstations =
        [\<lparr>Workstation.station_id = ''S1'', name = ''Assembly 1'', station_type = Some ''Assembly''\<rparr>,
         \<lparr>Workstation.station_id = ''S2'', name = ''Packing 1'', station_type = None\<rparr>],
      events =
        map (\<lambda>t. new_Event (obs t ''working'' None) 0) [1, 2, 3, 4] @
        [new_Event (obs 5 ''idle'' None) 0]\<rparr>"

text \<open>
  Three workers at one workstation: two with one \<open>working\<close> and two \<open>idle\<close> events,
  one with one \<open>working\<close> and three \<open>idle\<close> events.
\<close>

definition seen :: "string \<Rightarrow> int \<Rightarrow> string \<Rightarrow> Event" where
  "seen w t ty = new_Event ((obs t ty None)\<lparr>EventCreate.worker_id := w\<rparr>) 0"

definition rounding_db :: Database where
  "rounding_db =
     \<lparr>workers = [\<lparr>Worker.worker_id = ''W1'', name = ''Alice''\<rparr>,
                 \<lparr>Worker.worker_id = ''W2'', name = ''Bob''\<rparr>,
                 \<lparr>Worker.worker_id = ''W3'', name = ''Chen''\<rparr>],
      workstations =
        [\<lparr>Workstation.station_id = ''S1'', name = ''Assembly 1'', station_type = Some ''Assembly''\<rparr>],
      events =
        [seen ''W1'' 1 ''working'', seen ''W1'' 2 ''idle'', seen ''W1'' 3 ''idle'',
         seen ''W2'' 1 ''working'', seen ''W2'' 2 ''idle'', seen ''W2'' 3 ''idle'',
         seen ''W3'' 1 ''working'', seen ''W3'' 2 ''idle'', seen ''W3'' 3 ''idle'',
         seen ''W3'' 4 ''idle'']\<rparr>"

section \<open>Properties of ingestion\<close>

subsection \<open>Counters of a batch\<close>

lemma batch_loop_counters:
  "stored (batch_loop vw vs c u evs st) + duplicates (batch_loop vw vs c u evs st)
     = stored st + duplicates st
       + length (filter (\<lambda>e. EventCreate.worker_id e \<in> vw \<and> EventCreate.workstation_id e \<in> vs) evs)"
  by (induction evs arbitrary: st) (simp_all add: Let_def split: option.split)

lemma batch_loop_diagnostics:
  "length (diagnostics (batch_loop vw vs c u evs st))
     = length (diagnostics st)
       + length (filter (\<lambda>e. \<not> (EventCreate.worker_id e \<in> vw \<and> EventCreate.workstation_id e \<in> vs)) evs)"
  by (induction evs arbitrary: st) (simp_all add: Let_def split: option.split)

text \<open>
  Claim C10.  For every batch, the counters returned by \<open>ingest_events_batch\<close> account for
  every item exactly once: stored + duplicates + (items with an unknown worker or
  workstation) = total received = length of the batch; and the returned \<open>errors\<close> list
  has as many entries as items failed reference validation, but never more than 10.
\<close>

theorem batch_accounting_identity:
  "successfully_stored (snd (ingest_events_batch db utcnow batch))
     + duplicates_skipped (snd (ingest_events_batch db utcnow batch))
     + length (filter (\<lambda>e. \<not> refs_known db e) batch)
   = total_received (snd (ingest_events_batch db utcnow batch))
   \<and> total_received (snd (ingest_events_batch db utcnow batch)) = length batch
   \<and> length (errors (snd (ingest_events_batch db utcnow batch)))
       = min 10 (length (filter (\<lambda>e. \<not> refs_known db e) batch))"
proof -
  let ?ok = "\<lambda>e. refs_known db e"
  have split: "length (filter ?ok batch) + length (filter (\<lambda>e. \<not> ?ok e) batch) = length batch"
    by (rule sum_length_filter_compl)
  show ?thesis
    using split
    by (simp add: ingest_events_batch_def Let_def batch_loop_counters batch_loop_diagnostics
        refs_known_def min_def)
qed

subsection \<open>What ingestion does keep\<close>

text \<open>
  The unique constraint holds after every single and every batch ingestion.
\<close>

lemma flush_add_distinct:
  "distinct (map dedup_key (committed @ p)) \<Longrightarrow>
   flush_add committed p row = Some flushed \<Longrightarrow>
   distinct (map dedup_key (committed @ flushed))"
proof -
  assume d: "distinct (map dedup_key (committed @ p))"
    and f: "flush_add committed p row = Some flushed"
  define ks where "ks = map dedup_key (committed @ p)"
  from f have fl: "flushed = p @ [row]" and nk: "dedup_key row \<notin> set ks"
    by (simp_all add: flush_add_def ks_def split: if_splits)
  have "map dedup_key (committed @ flushed) = ks @ [dedup_key row]"
    by (simp add: fl ks_def)
  moreover from d have "distinct ks"
    unfolding ks_def .
  with nk have "distinct (ks @ [dedup_key row])"
    by simp
  ultimately show ?thesis by simp
qed

lemma batch_loop_distinct:
  "distinct (map dedup_key (c @ pending st)) \<Longrightarrow>
   distinct (map dedup_key (c @ pending (batch_loop vw vs c u evs st)))"
proof (induction evs arbitrary: st)
  case Nil
  then show ?case by simp
next
  case (Cons ev evs)
  show ?case
  proof (cases "flush_add c (pending st) (new_Event ev (u (clock_reads st)))")
    case None
    from Cons.prems have "distinct (map dedup_key c)" by simp
    with None Cons.prems Cons.IH show ?thesis
      by (simp add: Let_def rollback_def)
  next
    case (Some flushed)
    from flush_add_distinct [OF Cons.prems Some] Some Cons.prems Cons.IH show ?thesis
      by (simp add: Let_def)
  qed
qed

lemma dedup_key_unique_after_ingestion:
  assumes "distinct (map dedup_key (events db))"
  shows "distinct (map dedup_key (events (fst (ingest_events_batch db utcnow batch))))"
    and "ingest_event db now ev = Inr (db', row) \<Longrightarrow> distinct (map dedup_key (events db'))"
proof -
  show "distinct (map dedup_key (events (fst (ingest_events_batch db utcnow batch))))"
    using batch_loop_distinct [of "events db"
        "\<lparr>pending = [], stored = 0, duplicates = 0, diagnostics = [], clock_reads = 0\<rparr>"] assms
    by (simp add: ingest_events_batch_def Let_def commit_def)
next
  assume "ingest_event db now ev = Inr (db', row)"
  then obtain flushed where "flush_add (events db) [] (new_Event ev now) = Some flushed"
    and "db' = commit db flushed"
    by (auto simp: ingest_event_def Let_def split: option.splits)
  with flush_add_distinct [of "events db" "[]"] assms
  show "distinct (map dedup_key (events db'))"
    by (simp add: commit_def)
qed

text \<open>
  An event stored by a single submission is refused with a conflict when submitted
  alone again.
\<close>

lemma single_resubmission_conflicts:
  assumes "ingest_event db now ev = Inr (db', row)"
  shows "ingest_event db' now' ev = Inl (HTTPException 409
           ''Duplicate event detected (same timestamp, worker, workstation, event_type)'')"
proof -
  from assms have "db' = commit db [new_Event ev now]"
    and "find (\<lambda>w. Worker.worker_id w = EventCreate.worker_id ev) (workers db) \<noteq> None"
    and "find (\<lambda>s. Workstation.station_id s = EventCreate.workstation_id ev) (workstations db) \<noteq> None"
    by (auto simp: ingest_event_def Let_def flush_add_def split: option.splits if_splits)
  then show ?thesis
    by (auto simp: ingest_event_def Let_def flush_add_def commit_def dedup_key_def
        new_Event_def split: option.splits)
qed

text \<open>
  An item with an unknown worker or workstation changes nothing but the diagnostics:
  the rows in the open transaction and both counters are those of the batch without
  such items.
\<close>

lemma batch_loop_diagnostics_irrelevant:
  "pending (batch_loop vw vs c u evs (st\<lparr>diagnostics := d\<rparr>)) = pending (batch_loop vw vs c u evs st) \<and>
   stored (batch_loop vw vs c u evs (st\<lparr>diagnostics := d\<rparr>)) = stored (batch_loop vw vs c u evs st) \<and>
   duplicates (batch_loop vw vs c u evs (st\<lparr>diagnostics := d\<rparr>)) = duplicates (batch_loop vw vs c u evs st)"
proof (induction evs arbitrary: st d)
  case Nil
  then show ?case by simp
next
  case (Cons ev evs)
  have comm: "st\<lparr>diagnostics := d, clock_reads := n, pending := p, stored := k\<rparr>
      = st\<lparr>clock_reads := n, pending := p, stored := k, diagnostics := d\<rparr>"
    "st\<lparr>diagnostics := d, clock_reads := n, pending := p, duplicates := k\<rparr>
      = st\<lparr>clock_reads := n, pending := p, duplicates := k, diagnostics := d\<rparr>" for n p k
    by simp_all
  show ?case
    by (simp add: Let_def Cons.IH comm split: option.split)
qed

lemma reference_failures_are_isolated:
  "pending (batch_loop vw vs c u evs st)
     = pending (batch_loop vw vs c u
         (filter (\<lambda>e. EventCreate.worker_id e \<in> vw \<and> EventCreate.workstation_id e \<in> vs) evs) st) \<and>
   stored (batch_loop vw vs c u evs st)
     = stored (batch_loop vw vs c u
         (filter (\<lambda>e. EventCreate.worker_id e \<in> vw \<and> EventCreate.workstation_id e \<in> vs) evs) st) \<and>
   duplicates (batch_loop vw vs c u evs st)
     = duplicates (batch_loop vw vs c u
         (filter (\<lambda>e. EventCreate.worker_id e \<in> vw \<and> EventCreate.workstation_id e \<in> vs) evs) st)"
proof (induction evs arbitrary: st)
  case Nil
  then show ?case by simp
next
  case (Cons ev evs)
  show ?case
    by (simp add: Let_def Cons.IH batch_loop_diagnostics_irrelevant split: option.split)
qed

text \<open>
  A batch in which no valid item collides, neither with a stored event nor with another
  item, stores every valid item and counts no duplicate.
\<close>

lemma dedup_key_new_Event: "dedup_key (new_Event ev now) = submitted_key ev"
  by (simp add: dedup_key_def new_Event_def submitted_key_def)

lemma batch_without_collision_stores_every_valid_item:
  assumes "distinct (map submitted_key
             (filter (\<lambda>e. EventCreate.worker_id e \<in> vw \<and> EventCreate.workstation_id e \<in> vs) evs))"
    and "set (map submitted_key
             (filter (\<lambda>e. EventCreate.worker_id e \<in> vw \<and> EventCreate.workstation_id e \<in> vs) evs))
           \<inter> set (map dedup_key (c @ pending st)) = {}"
  shows "map dedup_key (pending (batch_loop vw vs c u evs st))
           = map dedup_key (pending st) @ map submitted_key
               (filter (\<lambda>e. EventCreate.worker_id e \<in> vw \<and> EventCreate.workstation_id e \<in> vs) evs) \<and>
         stored (batch_loop vw vs c u evs st)
           = stored st + length
               (filter (\<lambda>e. EventCreate.worker_id e \<in> vw \<and> EventCreate.workstation_id e \<in> vs) evs) \<and>
         duplicates (batch_loop vw vs c u evs st) = duplicates st"
  using assms
proof (induction evs arbitrary: st)
  case Nil
  then show ?case by simp
next
  case (Cons ev evs)
  let ?ok = "\<lambda>e. EventCreate.worker_id e \<in> vw \<and> EventCreate.workstation_id e \<in> vs"
  show ?case
  proof (cases "?ok ev")
    case False
    with Cons.prems
      Cons.IH [of "st\<lparr>diagnostics := diagnostics st @ [''Unknown worker_id: '' @ EventCreate.worker_id ev]\<rparr>"]
      Cons.IH [of "st\<lparr>diagnostics := diagnostics st @ [''Unknown workstation_id: '' @ EventCreate.workstation_id ev]\<rparr>"]
    show ?thesis by auto
  next
    case True
    let ?row = "new_Event ev (u (clock_reads st))"
    from True Cons.prems(2) have fresh: "submitted_key ev \<notin> set (map dedup_key (c @ pending st))"
      by auto
    then have fl: "flush_add c (pending st) ?row = Some (pending st @ [?row])"
      by (simp add: flush_add_def dedup_key_new_Event)
    let ?st' = "st\<lparr>clock_reads := Suc (clock_reads st), pending := pending st @ [?row],
                   stored := stored st + 1\<rparr>"
    from True Cons.prems(1) have d: "distinct (map submitted_key (filter ?ok evs))"
      and n: "submitted_key ev \<notin> set (map submitted_key (filter ?ok evs))"
      by simp_all
    from True Cons.prems(2) n
    have "set (map submitted_key (filter ?ok evs)) \<inter> set (map dedup_key (c @ pending ?st')) = {}"
      by (auto simp: dedup_key_new_Event)
    from Cons.IH [OF d this] True fl show ?thesis
      by (simp add: Let_def dedup_key_new_Event)
  qed
qed

subsection \<open>A duplicate inside a batch\<close>

text \<open>
  Claim C1, evaluated where the code departs from it.  The store holds the observation of
  instant 100.  The batch carries a new observation (instant 200) and then the one of
  instant 100 again.  The new observation is flushed and counted as stored; the
  duplicate raises IntegrityError, and the \<open>rollback\<close> that handles it discards the open
  transaction with the new row in it.  The final \<open>commit\<close> has nothing to write: the
  store is unchanged although the result reports one event stored.
\<close>

theorem batch_duplicate_rolls_back_earlier_rows:
  "ingest_events_batch (line_db\<lparr>events := [new_Event (obs 100 ''working'' None) 1]\<rparr>) (\<lambda>k. 50 + int k)
       [obs 200 ''working'' None, obs 100 ''working'' None]
   = (line_db\<lparr>events := [new_Event (obs 100 ''working'' None) 1]\<rparr>,
      \<lparr>total_received = 2, successfully_stored = 1, duplicates_skipped = 1, errors = []\<rparr>)"
  by (simp add: ingest_events_batch_def line_db_def obs_def new_Event_def flush_add_def
      dedup_key_def rollback_def commit_def count_or_0_def Let_def)

text \<open>
  Claim C3, evaluated where the code departs from it.  The same observation twice in one
  batch, on a store without events: the first copy is flushed and counted as stored, the
  second raises IntegrityError and the \<open>rollback\<close> discards the first.  No row is stored,
  where the claim has exactly one.
\<close>

theorem same_event_twice_in_one_batch_stores_no_row:
  "ingest_events_batch line_db (\<lambda>k. 50 + int k)
       [obs 100 ''working'' None, obs 100 ''working'' None]
   = (line_db,
      \<lparr>total_received = 2, successfully_stored = 1, duplicates_skipped = 1, errors = []\<rparr>)"
  by (simp add: ingest_events_batch_def line_db_def obs_def new_Event_def flush_add_def
      dedup_key_def rollback_def commit_def count_or_0_def Let_def)

subsection \<open>The stored count\<close>

text \<open>
  Claim C2 as stated fails: a valid \<open>working\<close> observation submitted with \<open>count = 1\<close> is
  accepted and its row reads back with \<open>count = 1\<close>, not \<open>0\<close>.
\<close>

theorem working_event_keeps_its_count:
  "EventCreate_valid (obs 100 ''working'' (Some 1)) \<and>
   ingest_event line_db 7 (obs 100 ''working'' (Some 1))
     = Inr (line_db\<lparr>events := [new_Event (obs 100 ''working'' (Some 1)) 7]\<rparr>,
            new_Event (obs 100 ''working'' (Some 1)) 7) \<and>
   Event.event_type (new_Event (obs 100 ''working'' (Some 1)) 7) = ''working'' \<and>
   Event.count (new_Event (obs 100 ''working'' (Some 1)) 7) = Some 1"
  by (simp add: ingest_event_def line_db_def obs_def new_Event_def flush_add_def
      dedup_key_def commit_def count_or_0_def Let_def EventCreate_valid_def validate_event_type_def)

lemma batch_loop_pending:
  "r \<in> set (pending (batch_loop vw vs c u evs st)) \<Longrightarrow>
   r \<in> set (pending st) \<or> (\<exists>ev\<in>set evs. \<exists>now. r = new_Event ev now)"
proof (induction evs arbitrary: st)
  case Nil
  then show ?case by simp
next
  case (Cons ev evs)
  show ?case
  proof (cases "EventCreate.worker_id ev \<in> vw \<and> EventCreate.workstation_id ev \<in> vs")
    case False
    with Cons.prems Cons.IH[of "st\<lparr>diagnostics := diagnostics st @ [''Unknown worker_id: '' @ EventCreate.worker_id ev]\<rparr>"]
      Cons.IH[of "st\<lparr>diagnostics := diagnostics st @ [''Unknown workstation_id: '' @ EventCreate.workstation_id ev]\<rparr>"]
    show ?thesis by (auto split: if_splits)
  next
    case True
    show ?thesis
    proof (cases "flush_add c (pending st) (new_Event ev (u (clock_reads st)))")
      case None
      with True Cons.prems
        Cons.IH[of "st\<lparr>clock_reads := Suc (clock_reads st), pending := rollback (pending st),
                       duplicates := duplicates st + 1\<rparr>"]
      show ?thesis by (auto simp: Let_def rollback_def)
    next
      case (Some flushed)
      then have fl: "flushed = pending st @ [new_Event ev (u (clock_reads st))]"
        by (simp add: flush_add_def split: if_splits)
      from True Some Cons.prems
        Cons.IH[of "st\<lparr>clock_reads := Suc (clock_reads st), pending := flushed,
                       stored := stored st + 1\<rparr>"]
      show ?thesis by (auto simp: Let_def fl)
    qed
  qed
qed

text \<open>
  Claim C2, amended.  The row stored for an accepted event carries the submitted count
  (\<open>0\<close> when none was submitted) whatever its event type: a single submission that
  succeeds appends exactly the row built from the submitted event, and every row a batch
  adds to the store is the row built from one of its items, with that item's event type
  and submitted count.
\<close>

theorem stored_count_is_submitted_count:
  "(ingest_event db now ev = Inr (db', row) \<longrightarrow>
      events db' = events db @ [row] \<and>
      row = new_Event ev now \<and>
      Event.event_type row = EventCreate.event_type ev \<and>
      Event.count row = Some (count_or_0 (EventCreate.count ev))) \<and>
   (r \<in> set (events (fst (ingest_events_batch db utcnow batch))) \<longrightarrow>
      r \<in> set (events db) \<or>
      (\<exists>item\<in>set batch. \<exists>received.
          r = new_Event item received \<and>
          Event.event_type r = EventCreate.event_type item \<and>
          Event.count r = Some (count_or_0 (EventCreate.count item))))"
proof (intro conjI impI)
  assume "ingest_event db now ev = Inr (db', row)"
  then have "db' = commit db [row] \<and> row = new_Event ev now"
    by (auto simp: ingest_event_def Let_def flush_add_def split: option.splits if_splits)
  then show "events db' = events db @ [row]"
    and "row = new_Event ev now"
    and "Event.event_type row = EventCreate.event_type ev"
    and "Event.count row = Some (count_or_0 (EventCreate.count ev))"
    by (simp_all add: commit_def new_Event_def)
next
  assume "r \<in> set (events (fst (ingest_events_batch db utcnow batch)))"
  then have "r \<in> set (events db) \<or>
      r \<in> set (pending (batch_loop (set (map Worker.worker_id (workers db)))
             (set (map Workstation.station_id (workstations db))) (events db) utcnow batch
             \<lparr>pending = [], stored = 0, duplicates = 0, diagnostics = [], clock_reads = 0\<rparr>))"
    by (auto simp: ingest_events_batch_def Let_def commit_def)
  then show "r \<in> set (events db) \<or>
      (\<exists>item\<in>set batch. \<exists>received.
          r = new_Event item received \<and>
          Event.event_type r = EventCreate.event_type item \<and>
          Event.count r = Some (count_or_0 (EventCreate.count item)))"
  proof
    assume "r \<in> set (events db)" then show ?thesis by simp
  next
    assume "r \<in> set (pending (batch_loop (set (map Worker.worker_id (workers db)))
             (set (map Workstation.station_id (workstations db))) (events db) utcnow batch
             \<lparr>pending = [], stored = 0, duplicates = 0, diagnostics = [], clock_reads = 0\<rparr>))"
    from batch_loop_pending[OF this]
    obtain item received where item: "item \<in> set batch" "r = new_Event item received"
      by auto
    then have "r = new_Event item received \<and>
        Event.event_type r = EventCreate.event_type item \<and>
        Event.count r = Some (count_or_0 (EventCreate.count item))"
      by (simp add: new_Event_def)
    with item(1) show ?thesis by blast
  qed
qed

text \<open>
  The amended claim C2 at work: a \<open>product_count\<close> observation with count 3 submitted
  alone, and an \<open>idle\<close> observation with count 2 submitted in a batch.
\<close>

theorem stored_count_is_submitted_count_witness:
  "ingest_event line_db 7 (obs 100 ''product_count'' (Some 3))
     = Inr (line_db\<lparr>events := [new_Event (obs 100 ''product_count'' (Some 3)) 7]\<rparr>,
            new_Event (obs 100 ''product_count'' (Some 3)) 7) \<and>
   Event.count (new_Event (obs 100 ''product_count'' (Some 3)) 7) = Some 3 \<and>
   new_Event (obs 200 ''idle'' (Some 2)) 50
     \<in> set (events (fst (ingest_events_batch line_db (\<lambda>k. 50 + int k) [obs 200 ''idle'' (Some 2)]))) \<and>
   Event.count (new_Event (obs 200 ''idle'' (Some 2)) 50) = Some 2"
  using stored_count_is_submitted_count
    [of line_db 7 "obs 100 ''product_count'' (Some 3)"
        "line_db\<lparr>events := [new_Event (obs 100 ''product_count'' (Some 3)) 7]\<rparr>"
        "new_Event (obs 100 ''product_count'' (Some 3)) 7"
        "new_Event (obs 200 ''idle'' (Some 2)) 50" "\<lambda>k. 50 + int k" "[obs 200 ''idle'' (Some 2)]"]
  by (simp add: ingest_event_def ingest_events_batch_def line_db_def obs_def new_Event_def
      flush_add_def dedup_key_def commit_def count_or_0_def Let_def)

section \<open>Properties of the metrics engine\<close>

subsection \<open>Exceptions\<close>

lemma bind_result_Inr [simp]: "bind_result (Inr v) f = f v"
  by (simp add: bind_result_def)

lemma bind_result_Inl [simp]: "bind_result (Inl e) f = Inl e"
  by (simp add: bind_result_def)

lemma int_truediv_nonzero [simp]: "b \<noteq> 0 \<Longrightarrow> int_truediv ops a b = Inr (idiv ops a b)"
  by (simp add: int_truediv_def)

lemma float_truediv_nonzero [simp]: "y \<noteq> 0 \<Longrightarrow> float_truediv ops x y = Inr (fdiv ops x y)"
  by (simp add: float_truediv_def)

subsection \<open>Computing with binary64\<close>

lemma fl_zero [simp]: "fl 0 = 0"
  by (simp add: fl_def)

lemma binary64_simps [simp]:
  "fint (binary64 v) n = fl (of_int n)"
  "idiv (binary64 v) a b = fl (of_int a / of_int b)"
  "fdiv (binary64 v) x y = fl (x / y)"
  "fmul (binary64 v) x y = fl (x * y)"
  "fsum (binary64 Plain) = sum_plain"
  "fsum (binary64 Compensated) = sum_compensated"
  "fround2 (binary64 v) x = fl (of_int (round_half_even (x * 100)) / 100)"
  by (simp_all add: binary64_def)

lemma fround2_binary64_zero: "fround2 (binary64 v) 0 = 0"
  by (simp add: round_half_even_def)

lemma sum_single:
  "sum_plain [x] = fl x" "sum_compensated [x] = fl x"
  by (simp_all add: sum_plain_def sum_compensated_def)

lemma fsum_binary64_single: "fsum (binary64 v) [x] = fl x"
  by (cases v) (simp_all add: sum_single)

text \<open>
  Rules with which the simplifier computes \<open>fl\<close> of a rational number: the bit length of
  a numeral, and the powers of two.
\<close>

lemma bitlen_numeral_bits:
  "bitlen 1 = 1"
  "bitlen (numeral (num.Bit0 n)) = bitlen (numeral n) + 1"
  "bitlen (numeral (num.Bit1 n)) = bitlen (numeral n) + 1"
proof -
  show "bitlen 1 = 1" by (subst compute_bitlen) simp
  have "numeral (num.Bit0 n) div (2::int) = numeral n" by simp
  then show "bitlen (numeral (num.Bit0 n)) = bitlen (numeral n) + 1"
    by (subst compute_bitlen) (simp del: div_mult_self1 div_mult_self2)
  have "numeral (num.Bit1 n) div (2::int) = numeral n" by simp
  then show "bitlen (numeral (num.Bit1 n)) = bitlen (numeral n) + 1"
    by (subst compute_bitlen) simp
qed

lemma two_powi:
  "(2::real) powi 0 = 1"
  "(2::real) powi (numeral k) = 2 ^ numeral k"
  "(2::real) powi (- numeral k) = 1 / 2 ^ numeral k"
  by (simp_all add: power_int_def field_simps)

lemmas fl_eval = fl_def exponent_def round_half_even_def Let_def bitlen_numeral_bits two_powi

text \<open>
  Some floats with their significands of 53 bits: \<open>2 / 3\<close>, \<open>66.67\<close> and \<open>0.1\<close>, as
  \<open>float.as_integer_ratio\<close> gives them.
\<close>

lemma fl_examples:
  "fl (2 / 3) = 6004799503160661 / 2 ^ 53"
  "fl (6667 / 100) = 4691484174324859 / 2 ^ 46"
  "fl (1 / 10) = 3602879701896397 / 2 ^ 55"
  "fl 80 = 80"
  by (simp_all add: fl_eval)

text \<open>
  Values that CPython computes and that exact arithmetic does not: \<open>115 / 800 * 100\<close> is
  a float below 14.375 and rounds to 14.37; \<open>28.57 / 2\<close> is the float nearest to 14.285,
  which is above it, and rounds to 14.29; \<open>1 / (800 / 60)\<close> is a float below 0.075 and
  rounds to 0.07.
\<close>

lemma reference_values:
  "fround2 (binary64 v) (float_utilization (binary64 v) 115 685) = fl (1437 / 100)"
  "fround2 (binary64 v) (float_mean (binary64 v) [0, fl (2857 / 100)]) = fl (1429 / 100)"
  "fround2 (binary64 v) (float_rate (binary64 v) 1 800) = fl (7 / 100)"
  "fl (1437 / 100) \<noteq> fl (1438 / 100)"
  "fl (1429 / 100) \<noteq> fl (1428 / 100)"
  "fl (7 / 100) \<noteq> fl (8 / 100)"
  by (cases v; simp add: float_utilization_def float_mean_def float_rate_def sum_plain_def
        sum_compensated_def fl_eval)+

text \<open>
  The values of the scenarios below.
\<close>

lemma utilization_50_25:
  "fround2 (binary64 v) (float_utilization (binary64 v) 50 25) = fl (6667 / 100)"
  by (simp add: float_utilization_def fl_eval)

lemma utilization_values:
  "fround2 (binary64 v) (float_utilization (binary64 v) 20 5) = 80"
  "fround2 (binary64 v) (float_utilization (binary64 v) 5 10) = fl (3333 / 100)"
  "fround2 (binary64 v) (float_utilization (binary64 v) 5 15) = 25"
  "fround2 (binary64 v) (float_utilization (binary64 v) 15 35) = 30"
  "fround2 (binary64 v) (float_utilization (binary64 v) 5 0) = 100"
  by (simp_all add: float_utilization_def fl_eval)

lemma rate_3_5: "fround2 (binary64 v) (float_rate (binary64 v) 3 5) = 36"
  by (simp add: float_rate_def fl_eval)

lemma float_rate_no_units: "float_rate (binary64 v) 0 m = 0"
  by (simp add: float_rate_def)

lemma float_utilization_nothing: "float_utilization ops 0 0 = 0"
  by (simp add: float_utilization_def)

lemma float_mean_nothing: "float_mean ops [] = 0"
  by (simp add: float_mean_def)

lemma mean_single_80: "fround2 (binary64 v) (float_mean (binary64 v) [80]) = 80"
  by (simp add: float_mean_def fsum_binary64_single fl_eval)

lemma mean_single_values:
  "fround2 (binary64 v) (float_mean (binary64 v) [30]) = 30"
  "fround2 (binary64 v) (float_mean (binary64 v) [100]) = 100"
  by (simp_all add: float_mean_def fsum_binary64_single fl_eval)

lemma mean_of_rounded:
  "fround2 (binary64 v) (float_mean (binary64 v) [fl (3333 / 100), fl (3333 / 100), 25])
     = fl (3055 / 100)"
  by (cases v) (simp_all add: float_mean_def sum_plain_def sum_compensated_def fl_eval)

lemma mean_of_unrounded:
  "fround2 (binary64 v)
     (float_mean (binary64 v)
        [float_utilization (binary64 v) 5 10, float_utilization (binary64 v) 5 10,
         float_utilization (binary64 v) 5 15])
     = fl (3056 / 100)"
  by (cases v)
     (simp_all add: float_mean_def float_utilization_def sum_plain_def sum_compensated_def
        fl_eval)

lemma floats_differ: "fl (3055 / 100) \<noteq> fl (3056 / 100)"
  by (simp add: fl_eval)

subsection \<open>What the computations return\<close>

text \<open>
  The two filters of a query keep the events of the window.
\<close>

lemma apply_time_filters_in_window:
  "apply_time_filters start_time end_time q
     = filter (\<lambda>e. in_window start_time end_time (Event.timestamp e)) q"
  by (cases start_time; cases end_time) (simp_all add: apply_time_filters_def in_window_def conj_commute)

lemma worker_query_events:
  "apply_time_filters start_time end_time (filter (\<lambda>e. Event.worker_id e = wid) (events db))
     = worker_events db start_time end_time wid"
  by (simp add: apply_time_filters_in_window worker_events_def conj_commute)

lemma station_query_events:
  "apply_time_filters start_time end_time (filter (\<lambda>e. Event.workstation_id e = sid) (events db))
     = station_events db start_time end_time sid"
  by (simp add: apply_time_filters_in_window station_events_def conj_commute)

text \<open>
  The guards of the divisions hold whenever a division is reached, so no computation
  raises, and each returns the record of the closed form.
\<close>

lemma guarded_utilization:
  "(if 0 < a + i
    then bind_result (int_truediv ops (int a) (int (a + i))) (\<lambda>q. Inr (fmul ops q 100))
    else Inr 0)
   = Inr (float_utilization ops a i)"
  by (simp add: float_utilization_def)

lemma guarded_rate:
  "bind_result (if 0 < m then int_truediv ops (int m) 60 else Inr 0)
     (\<lambda>hours. bind_result
        (if 0 < hours then float_truediv ops (fint ops units) hours else Inr 0) f)
   = f (float_rate ops units m)"
  by (simp add: float_rate_def)

lemma guarded_mean:
  "(if ms \<noteq> [] then float_truediv ops (fsum ops (map f ms)) (real (length ms)) else Inr 0)
     = Inr (float_mean ops (map f ms))"
  by (simp add: float_mean_def)

lemma worker_metrics_row_value: "worker_metrics_row ops w evs = Inr (worker_row ops w evs)"
  unfolding worker_metrics_row_def Let_def
  by (simp only: guarded_utilization guarded_rate bind_result_Inr worker_row_def
      minutes_of_def [symmetric])

lemma workstation_metrics_row_value:
  "workstation_metrics_row ops s evs = Inr (station_row ops s evs)"
  unfolding workstation_metrics_row_def Let_def
  by (simp only: guarded_utilization guarded_rate bind_result_Inr station_row_def
      minutes_of_def [symmetric])

lemma worker_metrics_loop_value:
  "worker_metrics_loop ops db st en ws
     = Inr (map (\<lambda>w. worker_row ops w (worker_events db st en (Worker.worker_id w))) ws)"
  by (induction ws) (simp_all add: worker_query_events worker_metrics_row_value)

lemma workstation_metrics_loop_value:
  "workstation_metrics_loop ops db st en ss
     = Inr (map (\<lambda>s. station_row ops s (station_events db st en (Workstation.station_id s))) ss)"
  by (induction ss) (simp_all add: station_query_events workstation_metrics_row_value)

lemma compute_worker_metrics_value:
  "compute_worker_metrics ops db wid st en
     = Inr (map (\<lambda>w. worker_row ops w (worker_events db st en (Worker.worker_id w)))
              (selected_workers db wid))"
  by (simp add: compute_worker_metrics_def worker_metrics_loop_value selected_workers_def
      truthy_def split: option.split)

lemma compute_workstation_metrics_value:
  "compute_workstation_metrics ops db sid st en
     = Inr (map (\<lambda>s. station_row ops s (station_events db st en (Workstation.station_id s)))
              (selected_stations db sid))"
  by (simp add: compute_workstation_metrics_def workstation_metrics_loop_value
      selected_stations_def truthy_def split: option.split)

lemma compute_factory_metrics_value:
  "compute_factory_metrics ops db st en =
     Inr \<lparr>total_productive_time_minutes = real (minutes_of ''working'' (window_events db st en)),
          FactoryMetrics.total_idle_time_minutes = real (minutes_of ''idle'' (window_events db st en)),
          total_production_count = sum_units (window_events db st en),
          average_production_rate =
            fround2 ops (float_rate ops (sum_units (window_events db st en))
                           (minutes_of ''working'' (window_events db st en))),
          average_worker_utilization =
            fround2 ops (float_mean ops (map WorkerMetrics.utilization_percentage
              (filter (\<lambda>m. WorkerMetrics.event_count m > 0)
                 (map (\<lambda>w. worker_row ops w (worker_events db st en (Worker.worker_id w)))
                    (workers db))))),
          average_workstation_utilization =
            fround2 ops (float_mean ops (map WorkstationMetrics.utilization_percentage
              (filter (\<lambda>m. WorkstationMetrics.event_count m > 0)
                 (map (\<lambda>s. station_row ops s (station_events db st en (Workstation.station_id s)))
                    (workstations db))))),
          total_events = length (window_events db st en),
          FactoryMetrics.active_workers =
            length (filter (\<lambda>m. WorkerMetrics.event_count m > 0)
                 (map (\<lambda>w. worker_row ops w (worker_events db st en (Worker.worker_id w)))
                    (workers db))),
          active_workstations =
            length (filter (\<lambda>m. WorkstationMetrics.event_count m > 0)
                 (map (\<lambda>s. station_row ops s (station_events db st en (Workstation.station_id s)))
                    (workstations db)))\<rparr>"
  unfolding compute_factory_metrics_def Let_def
  by (simp only: guarded_rate guarded_mean compute_worker_metrics_value
      compute_workstation_metrics_value bind_result_Inr selected_workers_def
      selected_stations_def option.case apply_time_filters_in_window
      window_events_def [symmetric] minutes_of_def [symmetric])

lemma worker_row_simps [simp]:
  "WorkerMetrics.worker_id (worker_row ops w evs) = Worker.worker_id w"
  "worker_name (worker_row ops w evs) = Worker.name w"
  "total_active_time_minutes (worker_row ops w evs) = real (minutes_of ''working'' evs)"
  "WorkerMetrics.total_idle_time_minutes (worker_row ops w evs) = real (minutes_of ''idle'' evs)"
  "total_absent_time_minutes (worker_row ops w evs) = real (minutes_of ''absent'' evs)"
  "WorkerMetrics.utilization_percentage (worker_row ops w evs) =
     fround2 ops (float_utilization ops (minutes_of ''working'' evs) (minutes_of ''idle'' evs))"
  "WorkerMetrics.total_units_produced (worker_row ops w evs) = sum_units evs"
  "units_per_hour (worker_row ops w evs) =
     fround2 ops (float_rate ops (sum_units evs) (minutes_of ''working'' evs))"
  "WorkerMetrics.event_count (worker_row ops w evs) = length evs"
  by (simp_all add: worker_row_def)

lemma station_row_simps [simp]:
  "WorkstationMetrics.station_id (station_row ops s evs) = Workstation.station_id s"
  "station_name (station_row ops s evs) = Workstation.name s"
  "WorkstationMetrics.station_type (station_row ops s evs) = Workstation.station_type s"
  "occupancy_time_minutes (station_row ops s evs) =
     real (minutes_of ''working'' evs + minutes_of ''idle'' evs)"
  "working_time_minutes (station_row ops s evs) = real (minutes_of ''working'' evs)"
  "idle_time_minutes (station_row ops s evs) = real (minutes_of ''idle'' evs)"
  "WorkstationMetrics.utilization_percentage (station_row ops s evs) =
     fround2 ops (float_utilization ops (minutes_of ''working'' evs) (minutes_of ''idle'' evs))"
  "WorkstationMetrics.total_units_produced (station_row ops s evs) = sum_units evs"
  "throughput_rate (station_row ops s evs) =
     fround2 ops (float_rate ops (sum_units evs)
        (minutes_of ''working'' evs + minutes_of ''idle'' evs))"
  "WorkstationMetrics.event_count (station_row ops s evs) = length evs"
  by (simp_all add: station_row_def)

lemma list_all2_map_right: "(\<And>x. x \<in> set xs \<Longrightarrow> P x (f x)) \<Longrightarrow> list_all2 P xs (map f xs)"
  by (simp add: list_all2_map2 list_all2_same)

lemma worker_rows_satisfy:
  assumes "\<And>w. w \<in> set (selected_workers db wid) \<Longrightarrow>
             P w (worker_row ops w (worker_events db st en (Worker.worker_id w)))"
  shows "\<exists>ms. compute_worker_metrics ops db wid st en = Inr ms \<and>
           list_all2 P (selected_workers db wid) ms"
  unfolding compute_worker_metrics_value
  using assms by (auto intro: list_all2_map_right)

lemma station_rows_satisfy:
  assumes "\<And>s. s \<in> set (selected_stations db sid) \<Longrightarrow>
             P s (station_row ops s (station_events db st en (Workstation.station_id s)))"
  shows "\<exists>ms. compute_workstation_metrics ops db sid st en = Inr ms \<and>
           list_all2 P (selected_stations db sid) ms"
  unfolding compute_workstation_metrics_value
  using assms by (auto intro: list_all2_map_right)

lemma minutes_of_real: "real (minutes_of ty evs) = real (count_type ty evs) * real EVENT_DURATION_MINUTES"
  by (simp add: minutes_of_def)

lemma minutes_of_zero: "minutes_of ty evs = 0 \<longleftrightarrow> count_type ty evs = 0"
  by (simp add: minutes_of_def EVENT_DURATION_MINUTES_def)

lemma minutes_sum_zero:
  "real (minutes_of a evs) + real (minutes_of b evs) = 0
     \<longleftrightarrow> count_type a evs = 0 \<and> count_type b evs = 0"
  by (simp add: minutes_of_def EVENT_DURATION_MINUTES_def add_nonneg_eq_0_iff)

lemma minutes_of_scenario:
  "count_type ty evs = 10 \<Longrightarrow> minutes_of ty evs = 50"
  "count_type ty evs = 5 \<Longrightarrow> minutes_of ty evs = 25"
  by (simp_all add: minutes_of_def EVENT_DURATION_MINUTES_def)

lemma empty_totals: "minutes_of ty [] = 0" "sum_units [] = 0"
  by (simp_all add: minutes_of_def count_type_def sum_units_def)

subsection \<open>Per-worker formulas\<close>

text \<open>
  Claim C5.  For every store, window and per-worker query, each returned record belongs
  to one selected worker and satisfies, over that worker's events in the window:
  active time = number of \<open>working\<close> events times \<open>EVENT_DURATION_MINUTES\<close>, idle time =
  number of \<open>idle\<close> events times \<open>EVENT_DURATION_MINUTES\<close>, and utilization =
  \<open>round(active / (active + idle) * 100, 2)\<close> in the arithmetic of floats (\<open>round(0.0, 2)\<close>
  when that denominator is \<open>0\<close>); absent time does not enter it.  In particular, with
  the operations of binary64, a worker with 10 \<open>working\<close> and 5 \<open>idle\<close> events in the
  window gets 50, 25 and the float 66.67, the duration being 5.
\<close>

theorem worker_metrics_formulas:
  "\<exists>ms. compute_worker_metrics ops db wid st en = Inr ms \<and>
     list_all2
       (\<lambda>w m.
          WorkerMetrics.worker_id m = Worker.worker_id w \<and>
          total_active_time_minutes m =
            real (count_type ''working'' (worker_events db st en (Worker.worker_id w)))
              * real EVENT_DURATION_MINUTES \<and>
          WorkerMetrics.total_idle_time_minutes m =
            real (count_type ''idle'' (worker_events db st en (Worker.worker_id w)))
              * real EVENT_DURATION_MINUTES \<and>
          WorkerMetrics.utilization_percentage m =
            fround2 ops (float_utilization ops
              (minutes_of ''working'' (worker_events db st en (Worker.worker_id w)))
              (minutes_of ''idle'' (worker_events db st en (Worker.worker_id w)))) \<and>
          (ops = binary64 version \<and>
           count_type ''working'' (worker_events db st en (Worker.worker_id w)) = 10 \<and>
           count_type ''idle'' (worker_events db st en (Worker.worker_id w)) = 5 \<longrightarrow>
             EVENT_DURATION_MINUTES = 5 \<and>
             total_active_time_minutes m = 50 \<and>
             WorkerMetrics.total_idle_time_minutes m = 25 \<and>
             WorkerMetrics.utilization_percentage m = fl (6667 / 100)))
       (selected_workers db wid) ms"
  by (rule worker_rows_satisfy)
     (auto simp: minutes_of_real minutes_of_scenario utilization_50_25 EVENT_DURATION_MINUTES_def
       simp del: binary64_simps)

lemma shift_db_events:
  "worker_events shift_db None None ''W1'' = events shift_db"
  "count_type ''working'' (events shift_db) = 10"
  "count_type ''idle'' (events shift_db) = 5"
  "count_type ''absent'' (events shift_db) = 0"
  "sum_units (events shift_db) = 0"
  "length (events shift_db) = 15"
  "selected_workers shift_db None = [\<lparr>Worker.worker_id = ''W1'', name = ''Alice''\<rparr>]"
  by (simp_all add: shift_db_def line_db_def worker_events_def in_window_def new_Event_def
      obs_def count_type_def sum_units_def selected_workers_def)

text \<open>
  The scenario of claim C5 on a store with exactly these fifteen events, for both
  versions of \<open>sum\<close>.
\<close>

theorem worker_metrics_formulas_witness:
  "\<forall>version.
     compute_worker_metrics (binary64 version) shift_db None None None =
       Inr [\<lparr>WorkerMetrics.worker_id = ''W1'', worker_name = ''Alice'',
             total_active_time_minutes = 50, WorkerMetrics.total_idle_time_minutes = 25,
             total_absent_time_minutes = 0,
             WorkerMetrics.utilization_percentage = fl (6667 / 100),
             WorkerMetrics.total_units_produced = 0, units_per_hour = 0,
             WorkerMetrics.event_count = 15\<rparr>]"
proof
  fix version
  from worker_metrics_formulas [of "binary64 version" shift_db None None None version]
  obtain m where ms: "compute_worker_metrics (binary64 version) shift_db None None None = Inr [m]"
    and m: "WorkerMetrics.worker_id m = ''W1''" "total_active_time_minutes m = 50"
      "WorkerMetrics.total_idle_time_minutes m = 25"
      "WorkerMetrics.utilization_percentage m = fl (6667 / 100)"
    by (auto simp: shift_db_events list_all2_Cons1 simp del: binary64_simps)
  from ms have "m = worker_row (binary64 version) \<lparr>Worker.worker_id = ''W1'', name = ''Alice''\<rparr>
      (events shift_db)"
    by (simp add: compute_worker_metrics_value shift_db_events)
  then have rest: "worker_name m = ''Alice''" "total_absent_time_minutes m = 0"
    "WorkerMetrics.total_units_produced m = 0" "units_per_hour m = 0"
    "WorkerMetrics.event_count m = 15"
    by (simp_all add: shift_db_events float_rate_no_units fround2_binary64_zero minutes_of_def
        del: binary64_simps)
  from m rest have "m = \<lparr>WorkerMetrics.worker_id = ''W1'', worker_name = ''Alice'',
           total_active_time_minutes = 50, WorkerMetrics.total_idle_time_minutes = 25,
           total_absent_time_minutes = 0, WorkerMetrics.utilization_percentage = fl (6667 / 100),
           WorkerMetrics.total_units_produced = 0, units_per_hour = 0,
           WorkerMetrics.event_count = 15\<rparr>"
    by (cases m) simp
  with ms show "compute_worker_metrics (binary64 version) shift_db None None None =
       Inr [\<lparr>WorkerMetrics.worker_id = ''W1'', worker_name = ''Alice'',
             total_active_time_minutes = 50, WorkerMetrics.total_idle_time_minutes = 25,
             total_absent_time_minutes = 0,
             WorkerMetrics.utilization_percentage = fl (6667 / 100),
             WorkerMetrics.total_units_produced = 0, units_per_hour = 0,
             WorkerMetrics.event_count = 15\<rparr>]" by simp
qed

subsection \<open>Guarded divisions\<close>

text \<open>
  Claim C6.  No metrics computation raises ZeroDivisionError: each of the three always
  returns a value, whatever the operations on floats return.  Where \<open>round(0.0, 2)\<close> is
  \<open>0.0\<close>, as it is in binary64: a worker or a workstation with no \<open>working\<close> and no
  \<open>idle\<close> event in the window has utilization \<open>0\<close>; a worker whose active time is \<open>0\<close>
  has \<open>units_per_hour = 0\<close>; a workstation whose occupancy time, the divisor of its
  throughput, is \<open>0\<close> has \<open>throughput_rate = 0\<close>; and the factory's
  \<open>average_production_rate\<close> is \<open>0\<close> when its productive time is \<open>0\<close>.
\<close>

theorem metrics_divisions_are_guarded:
  "(\<exists>ms. compute_worker_metrics ops db wid st en = Inr ms \<and>
      list_all2
        (\<lambda>w m.
           (fround2 ops 0 = 0 \<and>
            count_type ''working'' (worker_events db st en (Worker.worker_id w)) = 0 \<and>
            count_type ''idle'' (worker_events db st en (Worker.worker_id w)) = 0
              \<longrightarrow> WorkerMetrics.utilization_percentage m = 0) \<and>
           (fround2 ops 0 = 0 \<and> total_active_time_minutes m = 0 \<longrightarrow> units_per_hour m = 0))
        (selected_workers db wid) ms) \<and>
   (\<exists>ms. compute_workstation_metrics ops db sid st en = Inr ms \<and>
      list_all2
        (\<lambda>s m.
           (fround2 ops 0 = 0 \<and>
            count_type ''working'' (station_events db st en (Workstation.station_id s)) = 0 \<and>
            count_type ''idle'' (station_events db st en (Workstation.station_id s)) = 0
              \<longrightarrow> WorkstationMetrics.utilization_percentage m = 0) \<and>
           (fround2 ops 0 = 0 \<and> occupancy_time_minutes m = 0 \<longrightarrow> throughput_rate m = 0))
        (selected_stations db sid) ms) \<and>
   (\<exists>fm. compute_factory_metrics ops db st en = Inr fm \<and>
      (fround2 ops 0 = 0 \<and> total_productive_time_minutes fm = 0
         \<longrightarrow> average_production_rate fm = 0)) \<and>
   fround2 (binary64 version) 0 = 0"
proof (intro conjI)
  show "fround2 (binary64 version) 0 = 0"
    by (rule fround2_binary64_zero)
  show "\<exists>fm. compute_factory_metrics ops db st en = Inr fm \<and>
      (fround2 ops 0 = 0 \<and> total_productive_time_minutes fm = 0
         \<longrightarrow> average_production_rate fm = 0)"
    by (simp add: compute_factory_metrics_value float_rate_def)
qed (rule worker_rows_satisfy station_rows_satisfy,
     auto simp: float_utilization_def float_rate_def minutes_of_zero minutes_sum_zero)+

lemma absent_db_events:
  "worker_events absent_db None None ''W1'' = events absent_db"
  "station_events absent_db None None ''S1'' = events absent_db"
  "count_type ''working'' (events absent_db) = 0"
  "count_type ''idle'' (events absent_db) = 0"
  "count_type ''absent'' (events absent_db) = 3"
  "sum_units (events absent_db) = 0"
  "length (events absent_db) = 3"
  "selected_workers absent_db None = [\<lparr>Worker.worker_id = ''W1'', name = ''Alice''\<rparr>]"
  "selected_stations absent_db None =
     [\<lparr>Workstation.station_id = ''S1'', name = ''Assembly 1'', station_type = Some ''Assembly''\<rparr>]"
  by (simp_all add: absent_db_def line_db_def worker_events_def station_events_def in_window_def
      new_Event_def obs_def count_type_def sum_units_def selected_workers_def
      selected_stations_def)

text \<open>
  Claim C6 on a store whose only events are \<open>absent\<close> ones.
\<close>

theorem metrics_divisions_are_guarded_witness:
  "\<forall>version.
     count_type ''working'' (worker_events absent_db None None ''W1'') = 0 \<and>
     count_type ''idle'' (worker_events absent_db None None ''W1'') = 0 \<and>
     compute_worker_metrics (binary64 version) absent_db None None None =
       Inr [\<lparr>WorkerMetrics.worker_id = ''W1'', worker_name = ''Alice'',
             total_active_time_minutes = 0, WorkerMetrics.total_idle_time_minutes = 0,
             total_absent_time_minutes = 15, WorkerMetrics.utilization_percentage = 0,
             WorkerMetrics.total_units_produced = 0, units_per_hour = 0,
             WorkerMetrics.event_count = 3\<rparr>] \<and>
     compute_workstation_metrics (binary64 version) absent_db None None None =
       Inr [\<lparr>WorkstationMetrics.station_id = ''S1'', station_name = ''Assembly 1'',
             WorkstationMetrics.station_type = Some ''Assembly'',
             occupancy_time_minutes = 0, working_time_minutes = 0, idle_time_minutes = 0,
             WorkstationMetrics.utilization_percentage = 0,
             WorkstationMetrics.total_units_produced = 0, throughput_rate = 0,
             WorkstationMetrics.event_count = 3\<rparr>]"
proof
  fix version
  from metrics_divisions_are_guarded [of "binary64 version" absent_db None None None None version]
  obtain m s where ms: "compute_worker_metrics (binary64 version) absent_db None None None = Inr [m]"
    and m: "WorkerMetrics.utilization_percentage m = 0" "units_per_hour m = 0"
    and ss: "compute_workstation_metrics (binary64 version) absent_db None None None = Inr [s]"
    and s: "WorkstationMetrics.utilization_percentage s = 0" "throughput_rate s = 0"
    by (auto simp: absent_db_events list_all2_Cons1 compute_worker_metrics_value
        compute_workstation_metrics_value minutes_of_def fround2_binary64_zero
        simp del: binary64_simps)
  from ms have "m = worker_row (binary64 version) \<lparr>Worker.worker_id = ''W1'', name = ''Alice''\<rparr>
      (events absent_db)"
    by (simp add: compute_worker_metrics_value absent_db_events)
  then have mr: "WorkerMetrics.worker_id m = ''W1''" "worker_name m = ''Alice''"
    "total_active_time_minutes m = 0" "WorkerMetrics.total_idle_time_minutes m = 0"
    "total_absent_time_minutes m = 15"
    "WorkerMetrics.total_units_produced m = 0" "WorkerMetrics.event_count m = 3"
    by (simp_all add: absent_db_events minutes_of_def EVENT_DURATION_MINUTES_def
        del: binary64_simps)
  from ss have "s = station_row (binary64 version)
      \<lparr>Workstation.station_id = ''S1'', name = ''Assembly 1'', station_type = Some ''Assembly''\<rparr>
      (events absent_db)"
    by (simp add: compute_workstation_metrics_value absent_db_events)
  then have sr: "WorkstationMetrics.station_id s = ''S1''" "station_name s = ''Assembly 1''"
    "WorkstationMetrics.station_type s = Some ''Assembly''"
    "occupancy_time_minutes s = 0" "working_time_minutes s = 0" "idle_time_minutes s = 0"
    "WorkstationMetrics.total_units_produced s = 0" "WorkstationMetrics.event_count s = 3"
    by (simp_all add: absent_db_events minutes_of_def del: binary64_simps)
  from m mr have "m = \<lparr>WorkerMetrics.worker_id = ''W1'', worker_name = ''Alice'',
             total_active_time_minutes = 0, WorkerMetrics.total_idle_time_minutes = 0,
             total_absent_time_minutes = 15, WorkerMetrics.utilization_percentage = 0,
             WorkerMetrics.total_units_produced = 0, units_per_hour = 0,
             WorkerMetrics.event_count = 3\<rparr>"
    by (cases m) simp
  moreover from s sr have "s = \<lparr>WorkstationMetrics.station_id = ''S1'', station_name = ''Assembly 1'',
             WorkstationMetrics.station_type = Some ''Assembly'',
             occupancy_time_minutes = 0, working_time_minutes = 0, idle_time_minutes = 0,
             WorkstationMetrics.utilization_percentage = 0,
             WorkstationMetrics.total_units_produced = 0, throughput_rate = 0,
             WorkstationMetrics.event_count = 3\<rparr>"
    by (cases s) simp
  ultimately show "count_type ''working'' (worker_events absent_db None None ''W1'') = 0 \<and>
     count_type ''idle'' (worker_events absent_db None None ''W1'') = 0 \<and>
     compute_worker_metrics (binary64 version) absent_db None None None =
       Inr [\<lparr>WorkerMetrics.worker_id = ''W1'', worker_name = ''Alice'',
             total_active_time_minutes = 0, WorkerMetrics.total_idle_time_minutes = 0,
             total_absent_time_minutes = 15, WorkerMetrics.utilization_percentage = 0,
             WorkerMetrics.total_units_produced = 0, units_per_hour = 0,
             WorkerMetrics.event_count = 3\<rparr>] \<and>
     compute_workstation_metrics (binary64 version) absent_db None None None =
       Inr [\<lparr>WorkstationMetrics.station_id = ''S1'', station_name = ''Assembly 1'',
             WorkstationMetrics.station_type = Some ''Assembly'',
             occupancy_time_minutes = 0, working_time_minutes = 0, idle_time_minutes = 0,
             WorkstationMetrics.utilization_percentage = 0,
             WorkstationMetrics.total_units_produced = 0, throughput_rate = 0,
             WorkstationMetrics.event_count = 3\<rparr>]"
    using ms ss by (simp add: absent_db_events)
qed

subsection \<open>The time window\<close>

lemma selected_workers_events [simp]:
  "selected_workers (db\<lparr>events := evs\<rparr>) wid = selected_workers db wid"
  by (simp add: selected_workers_def split: option.split)

lemma selected_stations_events [simp]:
  "selected_stations (db\<lparr>events := evs\<rparr>) sid = selected_stations db sid"
  by (simp add: selected_stations_def split: option.split)

lemma in_window_None [simp]: "in_window None None t"
  by (simp add: in_window_def)

lemma in_window_bounds:
  "in_window st en t \<longleftrightarrow> (\<forall>s. st = Some s \<longrightarrow> s \<le> t) \<and> (\<forall>u. en = Some u \<longrightarrow> t \<le> u)"
  by (cases st; cases en) (simp_all add: in_window_def)

lemma window_events_restrict:
  "worker_events (db\<lparr>events := window_events db st en\<rparr>) None None wid = worker_events db st en wid"
  "station_events (db\<lparr>events := window_events db st en\<rparr>) None None sid = station_events db st en sid"
  "window_events (db\<lparr>events := window_events db st en\<rparr>) None None = window_events db st en"
  by (auto simp: worker_events_def station_events_def window_events_def intro: filter_cong)

lemma count_type_map:
  "(\<And>e. Event.event_type (g e) = Event.event_type e) \<Longrightarrow> count_type ty (map g evs) = count_type ty evs"
  by (simp add: count_type_def filter_map o_def)

lemma sum_units_map:
  "(\<And>e. Event.event_type (g e) = Event.event_type e) \<Longrightarrow>
   (\<And>e. Event.count (g e) = Event.count e) \<Longrightarrow> sum_units (map g evs) = sum_units evs"
  by (simp add: sum_units_def filter_map o_def)

lemma minutes_of_map:
  "(\<And>e. Event.event_type (g e) = Event.event_type e) \<Longrightarrow> minutes_of ty (map g evs) = minutes_of ty evs"
  by (simp add: minutes_of_def count_type_map)

lemma restamp_events:
  "worker_events (db\<lparr>events := map (\<lambda>e. e\<lparr>received_at := f e\<rparr>) (events db)\<rparr>) st en wid
     = map (\<lambda>e. e\<lparr>received_at := f e\<rparr>) (worker_events db st en wid)"
  "station_events (db\<lparr>events := map (\<lambda>e. e\<lparr>received_at := f e\<rparr>) (events db)\<rparr>) st en sid
     = map (\<lambda>e. e\<lparr>received_at := f e\<rparr>) (station_events db st en sid)"
  "window_events (db\<lparr>events := map (\<lambda>e. e\<lparr>received_at := f e\<rparr>) (events db)\<rparr>) st en
     = map (\<lambda>e. e\<lparr>received_at := f e\<rparr>) (window_events db st en)"
  by (simp_all add: worker_events_def station_events_def window_events_def filter_map o_def)

lemma rows_ignore_received_at:
  "worker_row ops w (map (\<lambda>e. e\<lparr>received_at := f e\<rparr>) evs) = worker_row ops w evs"
  "station_row ops s (map (\<lambda>e. e\<lparr>received_at := f e\<rparr>) evs) = station_row ops s evs"
  by (simp_all add: worker_row_def station_row_def minutes_of_map sum_units_map)

lemma windowed_worker_utilizations:
  "map WorkerMetrics.utilization_percentage
     (filter (\<lambda>m. 0 < WorkerMetrics.event_count m)
        (map (\<lambda>w. worker_row ops w (worker_events db st en (Worker.worker_id w))) ws))
   = map (\<lambda>w. fround2 ops (float_utilization ops
            (minutes_of ''working'' (worker_events db st en (Worker.worker_id w)))
            (minutes_of ''idle'' (worker_events db st en (Worker.worker_id w)))))
       (filter (\<lambda>w. worker_events db st en (Worker.worker_id w) \<noteq> []) ws)"
  by (induction ws) simp_all

lemma windowed_station_utilizations:
  "map WorkstationMetrics.utilization_percentage
     (filter (\<lambda>m. 0 < WorkstationMetrics.event_count m)
        (map (\<lambda>s. station_row ops s (station_events db st en (Workstation.station_id s))) ss))
   = map (\<lambda>s. fround2 ops (float_utilization ops
            (minutes_of ''working'' (station_events db st en (Workstation.station_id s)))
            (minutes_of ''idle'' (station_events db st en (Workstation.station_id s)))))
       (filter (\<lambda>s. station_events db st en (Workstation.station_id s) \<noteq> []) ss)"
  by (induction ss) simp_all

lemma windowed_worker_count:
  "length (filter (\<lambda>m. 0 < WorkerMetrics.event_count m)
     (map (\<lambda>w. worker_row ops w (worker_events db st en (Worker.worker_id w))) ws))
   = length (filter (\<lambda>w. worker_events db st en (Worker.worker_id w) \<noteq> []) ws)"
  by (induction ws) simp_all

lemma windowed_station_count:
  "length (filter (\<lambda>m. 0 < WorkstationMetrics.event_count m)
     (map (\<lambda>s. station_row ops s (station_events db st en (Workstation.station_id s))) ss))
   = length (filter (\<lambda>s. station_events db st en (Workstation.station_id s) \<noteq> []) ss)"
  by (induction ss) simp_all

text \<open>
  Claim C7.  The events a metrics query aggregates are exactly the stored events whose
  \<open>timestamp\<close> lies between \<open>start_time\<close> and \<open>end_time\<close>, both bounds included and an
  absent bound imposing nothing.  The filters of the query keep the events of
  \<open>in_window\<close>, and \<open>worker_events\<close>, \<open>station_events\<close> and \<open>window_events\<close> are the
  stored events of a worker, of a workstation and of the store with a timestamp in the
  window.  Every field of every per-worker record is computed from \<open>worker_events\<close> of
  its worker, every field of every per-workstation record from \<open>station_events\<close> of its
  workstation, and the factory record from \<open>window_events\<close> and from those per-entity
  values; the dashboard holds these three results.  So an event in the window,
  on a bound or inside, is counted in \<open>event_count\<close> and \<open>total_events\<close> and in the
  minutes or units of its type, and an event outside is counted nowhere: the results
  are those of the unbounded query on the store reduced to the events of the window.
  No result changes when \<open>received_at\<close> is changed arbitrarily.
\<close>

theorem window_bounds_are_inclusive_on_timestamp:
  "apply_time_filters st en q = filter (\<lambda>e. in_window st en (Event.timestamp e)) q \<and>
   (in_window st en t \<longleftrightarrow> (\<forall>s. st = Some s \<longrightarrow> s \<le> t) \<and> (\<forall>u. en = Some u \<longrightarrow> t \<le> u)) \<and>
   worker_events db st en w
     = filter (\<lambda>e. Event.worker_id e = w \<and> in_window st en (Event.timestamp e)) (events db) \<and>
   station_events db st en s
     = filter (\<lambda>e. Event.workstation_id e = s \<and> in_window st en (Event.timestamp e)) (events db) \<and>
   window_events db st en = filter (\<lambda>e. in_window st en (Event.timestamp e)) (events db) \<and>
   (\<exists>wms. compute_worker_metrics ops db wid st en = Inr wms \<and>
      list_all2
        (\<lambda>w m.
           WorkerMetrics.worker_id m = Worker.worker_id w \<and>
           WorkerMetrics.event_count m = length (worker_events db st en (Worker.worker_id w)) \<and>
           total_active_time_minutes m
             = real (minutes_of ''working'' (worker_events db st en (Worker.worker_id w))) \<and>
           WorkerMetrics.total_idle_time_minutes m
             = real (minutes_of ''idle'' (worker_events db st en (Worker.worker_id w))) \<and>
           total_absent_time_minutes m
             = real (minutes_of ''absent'' (worker_events db st en (Worker.worker_id w))) \<and>
           WorkerMetrics.total_units_produced m
             = sum_units (worker_events db st en (Worker.worker_id w)) \<and>
           WorkerMetrics.utilization_percentage m
             = fround2 ops (float_utilization ops
                 (minutes_of ''working'' (worker_events db st en (Worker.worker_id w)))
                 (minutes_of ''idle'' (worker_events db st en (Worker.worker_id w)))) \<and>
           units_per_hour m
             = fround2 ops (float_rate ops
                 (sum_units (worker_events db st en (Worker.worker_id w)))
                 (minutes_of ''working'' (worker_events db st en (Worker.worker_id w)))))
        (selected_workers db wid) wms) \<and>
   (\<exists>sms. compute_workstation_metrics ops db sid st en = Inr sms \<and>
      list_all2
        (\<lambda>s m.
           WorkstationMetrics.station_id m = Workstation.station_id s \<and>
           WorkstationMetrics.event_count m
             = length (station_events db st en (Workstation.station_id s)) \<and>
           working_time_minutes m
             = real (minutes_of ''working'' (station_events db st en (Workstation.station_id s))) \<and>
           idle_time_minutes m
             = real (minutes_of ''idle'' (station_events db st en (Workstation.station_id s))) \<and>
           occupancy_time_minutes m
             = real (minutes_of ''working'' (station_events db st en (Workstation.station_id s))
                 + minutes_of ''idle'' (station_events db st en (Workstation.station_id s))) \<and>
           WorkstationMetrics.total_units_produced m
             = sum_units (station_events db st en (Workstation.station_id s)) \<and>
           WorkstationMetrics.utilization_percentage m
             = fround2 ops (float_utilization ops
                 (minutes_of ''working'' (station_events db st en (Workstation.station_id s)))
                 (minutes_of ''idle'' (station_events db st en (Workstation.station_id s)))) \<and>
           throughput_rate m
             = fround2 ops (float_rate ops
                 (sum_units (station_events db st en (Workstation.station_id s)))
                 (minutes_of ''working'' (station_events db st en (Workstation.station_id s))
                  + minutes_of ''idle'' (station_events db st en (Workstation.station_id s)))))
        (selected_stations db sid) sms) \<and>
   (\<exists>fm wms sms.
      compute_factory_metrics ops db st en = Inr fm \<and>
      compute_worker_metrics ops db None st en = Inr wms \<and>
      compute_workstation_metrics ops db None st en = Inr sms \<and>
      get_dashboard_summary ops db now st en
        = Inr \<lparr>factory_metrics = fm, worker_metrics = wms, workstation_metrics = sms,
               last_updated = now\<rparr> \<and>
      total_events fm = length (window_events db st en) \<and>
      total_productive_time_minutes fm = real (minutes_of ''working'' (window_events db st en)) \<and>
      FactoryMetrics.total_idle_time_minutes fm
        = real (minutes_of ''idle'' (window_events db st en)) \<and>
      total_production_count fm = sum_units (window_events db st en) \<and>
      average_production_rate fm
        = fround2 ops (float_rate ops (sum_units (window_events db st en))
                         (minutes_of ''working'' (window_events db st en))) \<and>
      FactoryMetrics.active_workers fm
        = length (filter (\<lambda>w. worker_events db st en (Worker.worker_id w) \<noteq> []) (workers db)) \<and>
      active_workstations fm
        = length (filter (\<lambda>s. station_events db st en (Workstation.station_id s) \<noteq> [])
                    (workstations db)) \<and>
      average_worker_utilization fm
        = fround2 ops (float_mean ops
            (map (\<lambda>w. fround2 ops (float_utilization ops
                    (minutes_of ''working'' (worker_events db st en (Worker.worker_id w)))
                    (minutes_of ''idle'' (worker_events db st en (Worker.worker_id w)))))
               (filter (\<lambda>w. worker_events db st en (Worker.worker_id w) \<noteq> []) (workers db)))) \<and>
      average_workstation_utilization fm
        = fround2 ops (float_mean ops
            (map (\<lambda>s. fround2 ops (float_utilization ops
                    (minutes_of ''working'' (station_events db st en (Workstation.station_id s)))
                    (minutes_of ''idle'' (station_events db st en (Workstation.station_id s)))))
               (filter (\<lambda>s. station_events db st en (Workstation.station_id s) \<noteq> [])
                  (workstations db))))) \<and>
   compute_worker_metrics ops db wid st en
     = compute_worker_metrics ops (db\<lparr>events := window_events db st en\<rparr>) wid None None \<and>
   compute_workstation_metrics ops db sid st en
     = compute_workstation_metrics ops (db\<lparr>events := window_events db st en\<rparr>) sid None None \<and>
   compute_factory_metrics ops db st en
     = compute_factory_metrics ops (db\<lparr>events := window_events db st en\<rparr>) None None \<and>
   get_dashboard_summary ops db now st en
     = get_dashboard_summary ops (db\<lparr>events := window_events db st en\<rparr>) now None None \<and>
   compute_worker_metrics ops (db\<lparr>events := map (\<lambda>e. e\<lparr>received_at := f e\<rparr>) (events db)\<rparr>) wid st en
     = compute_worker_metrics ops db wid st en \<and>
   compute_workstation_metrics ops (db\<lparr>events := map (\<lambda>e. e\<lparr>received_at := f e\<rparr>) (events db)\<rparr>) sid st en
     = compute_workstation_metrics ops db sid st en \<and>
   compute_factory_metrics ops (db\<lparr>events := map (\<lambda>e. e\<lparr>received_at := f e\<rparr>) (events db)\<rparr>) st en
     = compute_factory_metrics ops db st en"
proof -
  have w: "compute_worker_metrics ops db wid st en
     = compute_worker_metrics ops (db\<lparr>events := window_events db st en\<rparr>) wid None None" for wid
    by (simp add: compute_worker_metrics_value window_events_restrict)
  have s: "compute_workstation_metrics ops db sid st en
     = compute_workstation_metrics ops (db\<lparr>events := window_events db st en\<rparr>) sid None None" for sid
    by (simp add: compute_workstation_metrics_value window_events_restrict)
  have f: "compute_factory_metrics ops db st en
     = compute_factory_metrics ops (db\<lparr>events := window_events db st en\<rparr>) None None"
    by (simp add: compute_factory_metrics_value window_events_restrict)
  have d: "get_dashboard_summary ops db now st en
     = get_dashboard_summary ops (db\<lparr>events := window_events db st en\<rparr>) now None None"
    unfolding get_dashboard_summary_def by (simp only: w [symmetric] s [symmetric] f [symmetric])
  have w': "compute_worker_metrics ops (db\<lparr>events := map (\<lambda>e. e\<lparr>received_at := f e\<rparr>) (events db)\<rparr>) wid st en
     = compute_worker_metrics ops db wid st en"
    by (simp add: compute_worker_metrics_value restamp_events rows_ignore_received_at)
  have s': "compute_workstation_metrics ops (db\<lparr>events := map (\<lambda>e. e\<lparr>received_at := f e\<rparr>) (events db)\<rparr>) sid st en
     = compute_workstation_metrics ops db sid st en"
    by (simp add: compute_workstation_metrics_value restamp_events rows_ignore_received_at)
  have f': "compute_factory_metrics ops (db\<lparr>events := map (\<lambda>e. e\<lparr>received_at := f e\<rparr>) (events db)\<rparr>) st en
     = compute_factory_metrics ops db st en"
    by (simp add: compute_factory_metrics_value restamp_events rows_ignore_received_at
        minutes_of_map sum_units_map)
  have rw: "\<exists>wms. compute_worker_metrics ops db wid st en = Inr wms \<and>
      list_all2
        (\<lambda>w m.
           WorkerMetrics.worker_id m = Worker.worker_id w \<and>
           WorkerMetrics.event_count m = length (worker_events db st en (Worker.worker_id w)) \<and>
           total_active_time_minutes m
             = real (minutes_of ''working'' (worker_events db st en (Worker.worker_id w))) \<and>
           WorkerMetrics.total_idle_time_minutes m
             = real (minutes_of ''idle'' (worker_events db st en (Worker.worker_id w))) \<and>
           total_absent_time_minutes m
             = real (minutes_of ''absent'' (worker_events db st en (Worker.worker_id w))) \<and>
           WorkerMetrics.total_units_produced m
             = sum_units (worker_events db st en (Worker.worker_id w)) \<and>
           WorkerMetrics.utilization_percentage m
             = fround2 ops (float_utilization ops
                 (minutes_of ''working'' (worker_events db st en (Worker.worker_id w)))
                 (minutes_of ''idle'' (worker_events db st en (Worker.worker_id w)))) \<and>
           units_per_hour m
             = fround2 ops (float_rate ops
                 (sum_units (worker_events db st en (Worker.worker_id w)))
                 (minutes_of ''working'' (worker_events db st en (Worker.worker_id w)))))
        (selected_workers db wid) wms"
    by (rule worker_rows_satisfy) simp
  have rs: "\<exists>sms. compute_workstation_metrics ops db sid st en = Inr sms \<and>
      list_all2
        (\<lambda>s m.
           WorkstationMetrics.station_id m = Workstation.station_id s \<and>
           WorkstationMetrics.event_count m
             = length (station_events db st en (Workstation.station_id s)) \<and>
           working_time_minutes m
             = real (minutes_of ''working'' (station_events db st en (Workstation.station_id s))) \<and>
           idle_time_minutes m
             = real (minutes_of ''idle'' (station_events db st en (Workstation.station_id s))) \<and>
           occupancy_time_minutes m
             = real (minutes_of ''working'' (station_events db st en (Workstation.station_id s))
                 + minutes_of ''idle'' (station_events db st en (Workstation.station_id s))) \<and>
           WorkstationMetrics.total_units_produced m
             = sum_units (station_events db st en (Workstation.station_id s)) \<and>
           WorkstationMetrics.utilization_percentage m
             = fround2 ops (float_utilization ops
                 (minutes_of ''working'' (station_events db st en (Workstation.station_id s)))
                 (minutes_of ''idle'' (station_events db st en (Workstation.station_id s)))) \<and>
           throughput_rate m
             = fround2 ops (float_rate ops
                 (sum_units (station_events db st en (Workstation.station_id s)))
                 (minutes_of ''working'' (station_events db st en (Workstation.station_id s))
                  + minutes_of ''idle'' (station_events db st en (Workstation.station_id s)))))
        (selected_stations db sid) sms"
    by (rule station_rows_satisfy) simp
  have rf: "\<exists>fm wms sms.
      compute_factory_metrics ops db st en = Inr fm \<and>
      compute_worker_metrics ops db None st en = Inr wms \<and>
      compute_workstation_metrics ops db None st en = Inr sms \<and>
      get_dashboard_summary ops db now st en
        = Inr \<lparr>factory_metrics = fm, worker_metrics = wms, workstation_metrics = sms,
               last_updated = now\<rparr> \<and>
      total_events fm = length (window_events db st en) \<and>
      total_productive_time_minutes fm = real (minutes_of ''working'' (window_events db st en)) \<and>
      FactoryMetrics.total_idle_time_minutes fm
        = real (minutes_of ''idle'' (window_events db st en)) \<and>
      total_production_count fm = sum_units (window_events db st en) \<and>
      average_production_rate fm
        = fround2 ops (float_rate ops (sum_units (window_events db st en))
                         (minutes_of ''working'' (window_events db st en))) \<and>
      FactoryMetrics.active_workers fm
        = length (filter (\<lambda>w. worker_events db st en (Worker.worker_id w) \<noteq> []) (workers db)) \<and>
      active_workstations fm
        = length (filter (\<lambda>s. station_events db st en (Workstation.station_id s) \<noteq> [])
                    (workstations db)) \<and>
      average_worker_utilization fm
        = fround2 ops (float_mean ops
            (map (\<lambda>w. fround2 ops (float_utilization ops
                    (minutes_of ''working'' (worker_events db st en (Worker.worker_id w)))
                    (minutes_of ''idle'' (worker_events db st en (Worker.worker_id w)))))
               (filter (\<lambda>w. worker_events db st en (Worker.worker_id w) \<noteq> []) (workers db)))) \<and>
      average_workstation_utilization fm
        = fround2 ops (float_mean ops
            (map (\<lambda>s. fround2 ops (float_utilization ops
                    (minutes_of ''working'' (station_events db st en (Workstation.station_id s)))
                    (minutes_of ''idle'' (station_events db st en (Workstation.station_id s)))))
               (filter (\<lambda>s. station_events db st en (Workstation.station_id s) \<noteq> [])
                  (workstations db))))"
    unfolding get_dashboard_summary_def compute_factory_metrics_value
      compute_worker_metrics_value compute_workstation_metrics_value
    by (simp only: windowed_worker_utilizations windowed_station_utilizations
        windowed_worker_count windowed_station_count selected_workers_def selected_stations_def
        option.case bind_result_Inr sum.inject FactoryMetrics.select_convs simp_thms ex_simps)
  show ?thesis
    by (intro conjI apply_time_filters_in_window in_window_bounds worker_events_def
        station_events_def window_events_def rw rs rf w s f d w' s' f')
qed

lemma window_db_events:
  "workers window_db = [\<lparr>Worker.worker_id = ''W1'', name = ''Alice''\<rparr>]"
  "workstations window_db =
     [\<lparr>Workstation.station_id = ''S1'', name = ''Assembly 1'', station_type = Some ''Assembly''\<rparr>]"
  "selected_workers window_db None = [\<lparr>Worker.worker_id = ''W1'', name = ''Alice''\<rparr>]"
  "map Event.timestamp (worker_events window_db (Some 10) (Some 20) ''W1'') = [10, 20]"
  "map Event.timestamp (station_events window_db (Some 10) (Some 20) ''S1'') = [10, 20]"
  "map Event.timestamp (window_events window_db (Some 10) (Some 20)) = [10, 20]"
  "length (worker_events window_db (Some 10) (Some 20) ''W1'') = 2"
  "minutes_of ''working'' (worker_events window_db (Some 10) (Some 20) ''W1'') = 5"
  "minutes_of ''idle'' (worker_events window_db (Some 10) (Some 20) ''W1'') = 0"
  "minutes_of ''absent'' (worker_events window_db (Some 10) (Some 20) ''W1'') = 0"
  "sum_units (worker_events window_db (Some 10) (Some 20) ''W1'') = 3"
  "length (station_events window_db (Some 10) (Some 20) ''S1'') = 2"
  "minutes_of ''working'' (station_events window_db (Some 10) (Some 20) ''S1'') = 5"
  "minutes_of ''idle'' (station_events window_db (Some 10) (Some 20) ''S1'') = 0"
  "length (window_events window_db (Some 10) (Some 20)) = 2"
  "minutes_of ''working'' (window_events window_db (Some 10) (Some 20)) = 5"
  "minutes_of ''idle'' (window_events window_db (Some 10) (Some 20)) = 0"
  "sum_units (window_events window_db (Some 10) (Some 20)) = 3"
  "length (worker_events window_db None None ''W1'') = 4"
  by (simp_all add: window_db_def line_db_def worker_events_def station_events_def
      window_events_def selected_workers_def in_window_def minutes_of_def count_type_def
      sum_units_def count_or_0_def new_Event_def obs_def EVENT_DURATION_MINUTES_def)

text \<open>
  Claim C7 on the window from 10 to 20 and events at 9, 10, 20 and 21: the \<open>working\<close>
  event at 10 and the three units counted at 20 are in the results, the \<open>working\<close>
  event at 9 and the \<open>idle\<close> event at 21 are not.
\<close>

theorem window_bounds_are_inclusive_on_timestamp_witness:
  "\<forall>version.
     in_window (Some 10) (Some 20) 10 \<and> in_window (Some 10) (Some 20) 20 \<and>
     \<not> in_window (Some 10) (Some 20) 9 \<and> \<not> in_window (Some 10) (Some 20) 21 \<and>
     in_window None (Some 20) 9 \<and> in_window (Some 10) None 21 \<and>
     map Event.timestamp (events window_db) = [9, 10, 20, 21] \<and>
     map Event.timestamp (window_events window_db (Some 10) (Some 20)) = [10, 20] \<and>
     compute_worker_metrics (binary64 version) window_db None (Some 10) (Some 20) =
       Inr [\<lparr>WorkerMetrics.worker_id = ''W1'', worker_name = ''Alice'',
             total_active_time_minutes = 5, WorkerMetrics.total_idle_time_minutes = 0,
             total_absent_time_minutes = 0, WorkerMetrics.utilization_percentage = 100,
             WorkerMetrics.total_units_produced = 3, units_per_hour = 36,
             WorkerMetrics.event_count = 2\<rparr>] \<and>
     compute_factory_metrics (binary64 version) window_db (Some 10) (Some 20) =
       Inr \<lparr>total_productive_time_minutes = 5, FactoryMetrics.total_idle_time_minutes = 0,
            total_production_count = 3, average_production_rate = 36,
            average_worker_utilization = 100, average_workstation_utilization = 100,
            total_events = 2, FactoryMetrics.active_workers = 1, active_workstations = 1\<rparr>"
proof
  fix version
  note t = window_bounds_are_inclusive_on_timestamp
    [of "Some 10" "Some 20" "[]" _ window_db "''W1''" "''S1''" "binary64 version" None None 0
      "\<lambda>e. 0"]
  have i: "in_window (Some 10) (Some 20) t \<longleftrightarrow> 10 \<le> t \<and> t \<le> 20" for t
    using t [of t, THEN conjunct2, THEN conjunct1] by simp
  have j: "in_window None (Some 20) 9" "in_window (Some 10) None 21"
    using window_bounds_are_inclusive_on_timestamp
        [of None "Some 20" "[]" 9 window_db "''W1''" "''S1''" "binary64 version" None None 0
          "\<lambda>e. 0", THEN conjunct2, THEN conjunct1]
      window_bounds_are_inclusive_on_timestamp
        [of "Some 10" None "[]" 21 window_db "''W1''" "''S1''" "binary64 version" None None 0
          "\<lambda>e. 0", THEN conjunct2, THEN conjunct1]
    by simp_all
  from t [of 0, THEN conjunct2, THEN conjunct2, THEN conjunct2, THEN conjunct2, THEN conjunct2,
      THEN conjunct1]
  obtain m where ms: "compute_worker_metrics (binary64 version) window_db None (Some 10) (Some 20)
      = Inr [m]"
    and m: "WorkerMetrics.worker_id m = ''W1''" "WorkerMetrics.event_count m = 2"
      "total_active_time_minutes m = 5" "WorkerMetrics.total_idle_time_minutes m = 0"
      "total_absent_time_minutes m = 0" "WorkerMetrics.total_units_produced m = 3"
      "WorkerMetrics.utilization_percentage m = 100" "units_per_hour m = 36"
    by (auto simp: window_db_events list_all2_Cons1 utilization_values rate_3_5
        simp del: binary64_simps)
  from ms have "worker_name m = ''Alice''"
    by (auto simp: compute_worker_metrics_value window_db_events)
  with m have "m = \<lparr>WorkerMetrics.worker_id = ''W1'', worker_name = ''Alice'',
             total_active_time_minutes = 5, WorkerMetrics.total_idle_time_minutes = 0,
             total_absent_time_minutes = 0, WorkerMetrics.utilization_percentage = 100,
             WorkerMetrics.total_units_produced = 3, units_per_hour = 36,
             WorkerMetrics.event_count = 2\<rparr>"
    by (cases m) simp
  with ms have w: "compute_worker_metrics (binary64 version) window_db None (Some 10) (Some 20) =
       Inr [\<lparr>WorkerMetrics.worker_id = ''W1'', worker_name = ''Alice'',
             total_active_time_minutes = 5, WorkerMetrics.total_idle_time_minutes = 0,
             total_absent_time_minutes = 0, WorkerMetrics.utilization_percentage = 100,
             WorkerMetrics.total_units_produced = 3, units_per_hour = 36,
             WorkerMetrics.event_count = 2\<rparr>]"
    by simp
  have nonempty: "worker_events window_db (Some 10) (Some 20) ''W1'' \<noteq> []"
    "station_events window_db (Some 10) (Some 20) ''S1'' \<noteq> []"
    using window_db_events(7,12) by auto
  from t [of 0, THEN conjunct2, THEN conjunct2, THEN conjunct2, THEN conjunct2, THEN conjunct2,
      THEN conjunct2, THEN conjunct2, THEN conjunct1]
  obtain fm where fms: "compute_factory_metrics (binary64 version) window_db (Some 10) (Some 20)
      = Inr fm"
    and fm: "total_events fm = 2" "total_productive_time_minutes fm = 5"
      "FactoryMetrics.total_idle_time_minutes fm = 0" "total_production_count fm = 3"
      "average_production_rate fm = 36" "FactoryMetrics.active_workers fm = 1"
      "active_workstations fm = 1" "average_worker_utilization fm = 100"
      "average_workstation_utilization fm = 100"
    by (auto simp: window_db_events nonempty utilization_values rate_3_5 mean_single_values
        simp del: binary64_simps)
  from fm have "fm = \<lparr>total_productive_time_minutes = 5, FactoryMetrics.total_idle_time_minutes = 0,
            total_production_count = 3, average_production_rate = 36,
            average_worker_utilization = 100, average_workstation_utilization = 100,
            total_events = 2, FactoryMetrics.active_workers = 1, active_workstations = 1\<rparr>"
    by (cases fm) simp
  with fms have f: "compute_factory_metrics (binary64 version) window_db (Some 10) (Some 20) =
       Inr \<lparr>total_productive_time_minutes = 5, FactoryMetrics.total_idle_time_minutes = 0,
            total_production_count = 3, average_production_rate = 36,
            average_worker_utilization = 100, average_workstation_utilization = 100,
            total_events = 2, FactoryMetrics.active_workers = 1, active_workstations = 1\<rparr>"
    by simp
  have e: "map Event.timestamp (events window_db) = [9, 10, 20, 21]"
    by (simp add: window_db_def line_db_def new_Event_def obs_def)
  from i j e w f window_db_events(6)
  show "in_window (Some 10) (Some 20) 10 \<and> in_window (Some 10) (Some 20) 20 \<and>
     \<not> in_window (Some 10) (Some 20) 9 \<and> \<not> in_window (Some 10) (Some 20) 21 \<and>
     in_window None (Some 20) 9 \<and> in_window (Some 10) None 21 \<and>
     map Event.timestamp (events window_db) = [9, 10, 20, 21] \<and>
     map Event.timestamp (window_events window_db (Some 10) (Some 20)) = [10, 20] \<and>
     compute_worker_metrics (binary64 version) window_db None (Some 10) (Some 20) =
       Inr [\<lparr>WorkerMetrics.worker_id = ''W1'', worker_name = ''Alice'',
             total_active_time_minutes = 5, WorkerMetrics.total_idle_time_minutes = 0,
             total_absent_time_minutes = 0, WorkerMetrics.utilization_percentage = 100,
             WorkerMetrics.total_units_produced = 3, units_per_hour = 36,
             WorkerMetrics.event_count = 2\<rparr>] \<and>
     compute_factory_metrics (binary64 version) window_db (Some 10) (Some 20) =
       Inr \<lparr>total_productive_time_minutes = 5, FactoryMetrics.total_idle_time_minutes = 0,
            total_production_count = 3, average_production_rate = 36,
            average_worker_utilization = 100, average_workstation_utilization = 100,
            total_events = 2, FactoryMetrics.active_workers = 1, active_workstations = 1\<rparr>"
    by simp
qed

subsection \<open>Factory averages\<close>

lemma event_count_positive:
  "worker_events db st en wid = [] \<longleftrightarrow> \<not> has_worker_event db st en wid"
  "station_events db st en sid = [] \<longleftrightarrow> \<not> has_station_event db st en sid"
  by (auto simp: worker_events_def station_events_def has_worker_event_def
      has_station_event_def filter_empty_conv)

lemma active_worker_rows:
  "filter (\<lambda>m. 0 < WorkerMetrics.event_count m)
     (map (\<lambda>w. worker_row ops w (worker_events db st en (Worker.worker_id w))) ws)
   = filter (\<lambda>m. has_worker_event db st en (WorkerMetrics.worker_id m))
     (map (\<lambda>w. worker_row ops w (worker_events db st en (Worker.worker_id w))) ws)"
  by (induction ws) (simp_all add: event_count_positive)

lemma active_station_rows:
  "filter (\<lambda>m. 0 < WorkstationMetrics.event_count m)
     (map (\<lambda>s. station_row ops s (station_events db st en (Workstation.station_id s))) ss)
   = filter (\<lambda>m. has_station_event db st en (WorkstationMetrics.station_id m))
     (map (\<lambda>s. station_row ops s (station_events db st en (Workstation.station_id s))) ss)"
  by (induction ss) (simp_all add: event_count_positive)

lemma active_worker_count:
  "length (filter (\<lambda>m. has_worker_event db st en (WorkerMetrics.worker_id m))
     (map (\<lambda>w. worker_row ops w (worker_events db st en (Worker.worker_id w))) ws))
   = length (filter (\<lambda>w. has_worker_event db st en (Worker.worker_id w)) ws)"
  by (induction ws) simp_all

lemma active_station_count:
  "length (filter (\<lambda>m. has_station_event db st en (WorkstationMetrics.station_id m))
     (map (\<lambda>s. station_row ops s (station_events db st en (Workstation.station_id s))) ss))
   = length (filter (\<lambda>s. has_station_event db st en (Workstation.station_id s)) ss)"
  by (induction ss) simp_all

text \<open>
  Claim C4.  For every factory-metrics query, \<open>active_workers\<close> is the number of
  registered workers with at least one event in the window, and
  \<open>average_worker_utilization\<close> is \<open>round(sum(us) / len(us), 2)\<close>, in the arithmetic of
  floats, for the list \<open>us\<close> of the \<open>utilization_percentage\<close> values of the per-worker
  records of exactly those workers (\<open>round(0.0, 2)\<close> when there is none); likewise for
  workstations.  In particular, with the operations of binary64 and two workers, one
  with events and utilization 80 and one without events, the average is 80 and
  \<open>active_workers\<close> is 1.
\<close>

theorem factory_averages_over_active_entities:
  "\<exists>fm wms sms.
     compute_factory_metrics ops db st en = Inr fm \<and>
     compute_worker_metrics ops db None st en = Inr wms \<and>
     compute_workstation_metrics ops db None st en = Inr sms \<and>
     FactoryMetrics.active_workers fm
       = length (filter (\<lambda>w. has_worker_event db st en (Worker.worker_id w)) (workers db)) \<and>
     active_workstations fm
       = length (filter (\<lambda>s. has_station_event db st en (Workstation.station_id s))
                   (workstations db)) \<and>
     average_worker_utilization fm
       = fround2 ops (float_mean ops (map WorkerMetrics.utilization_percentage
           (filter (\<lambda>m. has_worker_event db st en (WorkerMetrics.worker_id m)) wms))) \<and>
     average_workstation_utilization fm
       = fround2 ops (float_mean ops (map WorkstationMetrics.utilization_percentage
           (filter (\<lambda>m. has_station_event db st en (WorkstationMetrics.station_id m)) sms))) \<and>
     (\<forall>m1 m2. ops = binary64 version \<and> wms = [m1, m2] \<and>
        WorkerMetrics.utilization_percentage m1 = 80 \<and>
        has_worker_event db st en (WorkerMetrics.worker_id m1) \<and>
        \<not> has_worker_event db st en (WorkerMetrics.worker_id m2)
        \<longrightarrow> average_worker_utilization fm = 80 \<and> FactoryMetrics.active_workers fm = 1)"
proof -
  define wms where
    "wms = map (\<lambda>w. worker_row ops w (worker_events db st en (Worker.worker_id w))) (workers db)"
  define sms where
    "sms = map (\<lambda>s. station_row ops s (station_events db st en (Workstation.station_id s)))
             (workstations db)"
  obtain fm where fm: "compute_factory_metrics ops db st en = Inr fm"
    by (simp add: compute_factory_metrics_value)
  have w: "compute_worker_metrics ops db None st en = Inr wms"
    by (simp add: compute_worker_metrics_value selected_workers_def wms_def)
  have s: "compute_workstation_metrics ops db None st en = Inr sms"
    by (simp add: compute_workstation_metrics_value selected_stations_def sms_def)
  have aw: "FactoryMetrics.active_workers fm
      = length (filter (\<lambda>m. has_worker_event db st en (WorkerMetrics.worker_id m)) wms)"
    using fm unfolding compute_factory_metrics_value wms_def
    by (auto simp only: sum.inject active_worker_rows FactoryMetrics.select_convs)
  have as: "active_workstations fm
      = length (filter (\<lambda>m. has_station_event db st en (WorkstationMetrics.station_id m)) sms)"
    using fm unfolding compute_factory_metrics_value sms_def
    by (auto simp only: sum.inject active_station_rows FactoryMetrics.select_convs)
  have uw: "average_worker_utilization fm
       = fround2 ops (float_mean ops (map WorkerMetrics.utilization_percentage
           (filter (\<lambda>m. has_worker_event db st en (WorkerMetrics.worker_id m)) wms)))"
    using fm unfolding compute_factory_metrics_value wms_def
    by (auto simp only: sum.inject active_worker_rows FactoryMetrics.select_convs)
  have us: "average_workstation_utilization fm
       = fround2 ops (float_mean ops (map WorkstationMetrics.utilization_percentage
           (filter (\<lambda>m. has_station_event db st en (WorkstationMetrics.station_id m)) sms)))"
    using fm unfolding compute_factory_metrics_value sms_def
    by (auto simp only: sum.inject active_station_rows FactoryMetrics.select_convs)
  have aw': "FactoryMetrics.active_workers fm
       = length (filter (\<lambda>w. has_worker_event db st en (Worker.worker_id w)) (workers db))"
    unfolding aw wms_def by (rule active_worker_count)
  have as': "active_workstations fm
       = length (filter (\<lambda>s. has_station_event db st en (Workstation.station_id s))
                   (workstations db))"
    unfolding as sms_def by (rule active_station_count)
  have sc: "\<forall>m1 m2. ops = binary64 version \<and> wms = [m1, m2] \<and>
        WorkerMetrics.utilization_percentage m1 = 80 \<and>
        has_worker_event db st en (WorkerMetrics.worker_id m1) \<and>
        \<not> has_worker_event db st en (WorkerMetrics.worker_id m2)
        \<longrightarrow> average_worker_utilization fm = 80 \<and> FactoryMetrics.active_workers fm = 1"
    by (auto simp: uw aw mean_single_80 simp del: binary64_simps)
  show ?thesis
    by (rule exI [of _ fm], rule exI [of _ wms], rule exI [of _ sms])
       (intro conjI fm w s aw' as' uw us sc)
qed

lemma crew_db_events:
  "worker_events crew_db None None ''W1'' = events crew_db"
  "worker_events crew_db None None ''W2'' = []"
  "station_events crew_db None None ''S1'' = events crew_db"
  "station_events crew_db None None ''S2'' = []"
  "window_events crew_db None None = events crew_db"
  "minutes_of ''working'' (events crew_db) = 20"
  "minutes_of ''idle'' (events crew_db) = 5"
  "minutes_of ''absent'' (events crew_db) = 0"
  "sum_units (events crew_db) = 0"
  "length (events crew_db) = 5"
  "workers crew_db = [\<lparr>Worker.worker_id = ''W1'', name = ''Alice''\<rparr>,
                      \<lparr>Worker.worker_id = ''W2'', name = ''Bob''\<rparr>]"
  "workstations crew_db =
     [\<lparr>Workstation.station_id = ''S1'', name = ''Assembly 1'', station_type = Some ''Assembly''\<rparr>,
      \<lparr>Workstation.station_id = ''S2'', name = ''Packing 1'', station_type = None\<rparr>]"
  "has_worker_event crew_db None None ''W1''"
  "\<not> has_worker_event crew_db None None ''W2''"
  by (simp_all add: crew_db_def worker_events_def station_events_def window_events_def
      has_worker_event_def minutes_of_def count_type_def sum_units_def new_Event_def obs_def
      EVENT_DURATION_MINUTES_def)

text \<open>
  The scenario of claim C4 on a store with two workers, of which only the first has
  events (four \<open>working\<close>, one \<open>idle\<close>).
\<close>

theorem factory_averages_over_active_entities_witness:
  "\<forall>version.
     compute_worker_metrics (binary64 version) crew_db None None None =
       Inr [\<lparr>WorkerMetrics.worker_id = ''W1'', worker_name = ''Alice'',
             total_active_time_minutes = 20, WorkerMetrics.total_idle_time_minutes = 5,
             total_absent_time_minutes = 0, WorkerMetrics.utilization_percentage = 80,
             WorkerMetrics.total_units_produced = 0, units_per_hour = 0,
             WorkerMetrics.event_count = 5\<rparr>,
            zero_worker_metrics ''W2'' ''Bob''] \<and>
     has_worker_event crew_db None None ''W1'' \<and>
     \<not> has_worker_event crew_db None None ''W2'' \<and>
     compute_factory_metrics (binary64 version) crew_db None None =
       Inr \<lparr>total_productive_time_minutes = 20, FactoryMetrics.total_idle_time_minutes = 5,
            total_production_count = 0, average_production_rate = 0,
            average_worker_utilization = 80, average_workstation_utilization = 80,
            total_events = 5, FactoryMetrics.active_workers = 1, active_workstations = 1\<rparr>"
proof
  fix version
  have w: "compute_worker_metrics (binary64 version) crew_db None None None =
     Inr [\<lparr>WorkerMetrics.worker_id = ''W1'', worker_name = ''Alice'',
           total_active_time_minutes = 20, WorkerMetrics.total_idle_time_minutes = 5,
           total_absent_time_minutes = 0, WorkerMetrics.utilization_percentage = 80,
           WorkerMetrics.total_units_produced = 0, units_per_hour = 0,
           WorkerMetrics.event_count = 5\<rparr>,
          zero_worker_metrics ''W2'' ''Bob'']"
    by (simp add: compute_worker_metrics_value selected_workers_def crew_db_events worker_row_def
        zero_worker_metrics_def utilization_values float_rate_no_units fround2_binary64_zero
        float_utilization_nothing empty_totals del: binary64_simps)
  from factory_averages_over_active_entities [of "binary64 version" crew_db None None version]
  obtain fm where fm: "compute_factory_metrics (binary64 version) crew_db None None = Inr fm"
    and av: "average_worker_utilization fm = 80" "FactoryMetrics.active_workers fm = 1"
    unfolding w using crew_db_events(13,14)
    by (auto simp: zero_worker_metrics_def simp del: binary64_simps)
  from fm have "fm = \<lparr>total_productive_time_minutes = 20, FactoryMetrics.total_idle_time_minutes = 5,
          total_production_count = 0, average_production_rate = 0,
          average_worker_utilization = average_worker_utilization fm,
          average_workstation_utilization = 80,
          total_events = 5, FactoryMetrics.active_workers = FactoryMetrics.active_workers fm,
          active_workstations = 1\<rparr>"
    by (auto simp: compute_factory_metrics_value crew_db_events utilization_values mean_single_80
        float_rate_no_units fround2_binary64_zero float_utilization_nothing empty_totals
        simp del: binary64_simps)
  with av fm w crew_db_events(13,14)
  show "compute_worker_metrics (binary64 version) crew_db None None None =
       Inr [\<lparr>WorkerMetrics.worker_id = ''W1'', worker_name = ''Alice'',
             total_active_time_minutes = 20, WorkerMetrics.total_idle_time_minutes = 5,
             total_absent_time_minutes = 0, WorkerMetrics.utilization_percentage = 80,
             WorkerMetrics.total_units_produced = 0, units_per_hour = 0,
             WorkerMetrics.event_count = 5\<rparr>,
            zero_worker_metrics ''W2'' ''Bob''] \<and>
     has_worker_event crew_db None None ''W1'' \<and>
     \<not> has_worker_event crew_db None None ''W2'' \<and>
     compute_factory_metrics (binary64 version) crew_db None None =
       Inr \<lparr>total_productive_time_minutes = 20, FactoryMetrics.total_idle_time_minutes = 5,
            total_production_count = 0, average_production_rate = 0,
            average_worker_utilization = 80, average_workstation_utilization = 80,
            total_events = 5, FactoryMetrics.active_workers = 1, active_workstations = 1\<rparr>"
    by simp
qed

subsection \<open>Rounding\<close>

lemma rounding_db_events:
  "minutes_of ''working'' (worker_events rounding_db None None ''W1'') = 5"
  "minutes_of ''idle'' (worker_events rounding_db None None ''W1'') = 10"
  "minutes_of ''working'' (worker_events rounding_db None None ''W2'') = 5"
  "minutes_of ''idle'' (worker_events rounding_db None None ''W2'') = 10"
  "minutes_of ''working'' (worker_events rounding_db None None ''W3'') = 5"
  "minutes_of ''idle'' (worker_events rounding_db None None ''W3'') = 15"
  "length (worker_events rounding_db None None ''W1'') = 3"
  "length (worker_events rounding_db None None ''W2'') = 3"
  "length (worker_events rounding_db None None ''W3'') = 4"
  "station_events rounding_db None None ''S1'' = events rounding_db"
  "window_events rounding_db None None = events rounding_db"
  "minutes_of ''working'' (events rounding_db) = 15"
  "minutes_of ''idle'' (events rounding_db) = 35"
  "sum_units (events rounding_db) = 0"
  "length (events rounding_db) = 10"
  "workers rounding_db = [\<lparr>Worker.worker_id = ''W1'', name = ''Alice''\<rparr>,
                          \<lparr>Worker.worker_id = ''W2'', name = ''Bob''\<rparr>,
                          \<lparr>Worker.worker_id = ''W3'', name = ''Chen''\<rparr>]"
  "workstations rounding_db =
     [\<lparr>Workstation.station_id = ''S1'', name = ''Assembly 1'', station_type = Some ''Assembly''\<rparr>]"
  by (simp_all add: rounding_db_def worker_events_def station_events_def window_events_def
      minutes_of_def count_type_def sum_units_def seen_def new_Event_def obs_def
      EVENT_DURATION_MINUTES_def)

text \<open>
  Claim C8 as stated fails for the factory averages.  Three workers have the
  utilizations \<open>5 / 15 * 100\<close>, \<open>5 / 15 * 100\<close> and \<open>5 / 20 * 100\<close>.  The factory
  computation averages the per-worker outputs, already rounded to 33.33, 33.33 and 25.0,
  and returns 30.55; the mean of the unrounded floats rounds to 30.56.  This holds with
  both versions of \<open>sum\<close>.
\<close>

theorem factory_average_uses_rounded_utilizations:
  "\<forall>version.
     compute_factory_metrics (binary64 version) rounding_db None None =
       Inr \<lparr>total_productive_time_minutes = 15, FactoryMetrics.total_idle_time_minutes = 35,
            total_production_count = 0, average_production_rate = 0,
            average_worker_utilization = fl (3055 / 100),
            average_workstation_utilization = 30,
            total_events = 10, FactoryMetrics.active_workers = 3, active_workstations = 1\<rparr> \<and>
     fround2 (binary64 version)
       (float_mean (binary64 version)
          [full_precision_utilization (binary64 version) rounding_db None None ''W1'',
           full_precision_utilization (binary64 version) rounding_db None None ''W2'',
           full_precision_utilization (binary64 version) rounding_db None None ''W3''])
       = fl (3056 / 100) \<and>
     fl (3055 / 100) \<noteq> fl (3056 / 100)"
proof (intro allI conjI)
  fix version
  show "compute_factory_metrics (binary64 version) rounding_db None None =
       Inr \<lparr>total_productive_time_minutes = 15, FactoryMetrics.total_idle_time_minutes = 35,
            total_production_count = 0, average_production_rate = 0,
            average_worker_utilization = fl (3055 / 100),
            average_workstation_utilization = 30,
            total_events = 10, FactoryMetrics.active_workers = 3, active_workstations = 1\<rparr>"
    by (simp add: compute_factory_metrics_value rounding_db_events utilization_values
        mean_of_rounded mean_single_values float_rate_no_units fround2_binary64_zero
        del: binary64_simps)
  show "fround2 (binary64 version)
       (float_mean (binary64 version)
          [full_precision_utilization (binary64 version) rounding_db None None ''W1'',
           full_precision_utilization (binary64 version) rounding_db None None ''W2'',
           full_precision_utilization (binary64 version) rounding_db None None ''W3''])
       = fl (3056 / 100)"
    by (simp add: full_precision_utilization_def rounding_db_events mean_of_unrounded
        del: binary64_simps)
  show "fl (3055 / 100) \<noteq> fl (3056 / 100)"
    by (rule floats_differ)
qed

text \<open>
  Claim C8, amended.  Every float output of the per-worker, per-workstation and factory
  records is \<open>round(x, 2)\<close> of a float \<open>x\<close>, and the minute totals are the integers
  computed.  For the per-entity utilizations and rates and for the factory's production
  rate, \<open>x\<close> is computed from the counts of events without any earlier rounding to two
  decimals.  For the two factory averages, \<open>x\<close> is the mean of the per-entity
  \<open>utilization_percentage\<close> outputs, which are rounded to two decimals already.
\<close>

theorem rounding_at_each_output_record:
  "\<exists>fm wms sms.
     compute_factory_metrics ops db st en = Inr fm \<and>
     compute_worker_metrics ops db None st en = Inr wms \<and>
     compute_workstation_metrics ops db None st en = Inr sms \<and>
     list_all2
       (\<lambda>w m.
          WorkerMetrics.utilization_percentage m
            = fround2 ops (full_precision_utilization ops db st en (Worker.worker_id w)) \<and>
          units_per_hour m
            = fround2 ops (float_rate ops
                (sum_units (worker_events db st en (Worker.worker_id w)))
                (minutes_of ''working'' (worker_events db st en (Worker.worker_id w)))) \<and>
          total_active_time_minutes m
            = real (minutes_of ''working'' (worker_events db st en (Worker.worker_id w))) \<and>
          WorkerMetrics.total_idle_time_minutes m
            = real (minutes_of ''idle'' (worker_events db st en (Worker.worker_id w))) \<and>
          total_absent_time_minutes m
            = real (minutes_of ''absent'' (worker_events db st en (Worker.worker_id w))))
       (workers db) wms \<and>
     list_all2
       (\<lambda>s m.
          WorkstationMetrics.utilization_percentage m
            = fround2 ops (float_utilization ops
                (minutes_of ''working'' (station_events db st en (Workstation.station_id s)))
                (minutes_of ''idle'' (station_events db st en (Workstation.station_id s)))) \<and>
          throughput_rate m
            = fround2 ops (float_rate ops
                (sum_units (station_events db st en (Workstation.station_id s)))
                (minutes_of ''working'' (station_events db st en (Workstation.station_id s))
                 + minutes_of ''idle'' (station_events db st en (Workstation.station_id s)))) \<and>
          occupancy_time_minutes m
            = real (minutes_of ''working'' (station_events db st en (Workstation.station_id s))
                 + minutes_of ''idle'' (station_events db st en (Workstation.station_id s))) \<and>
          working_time_minutes m
            = real (minutes_of ''working'' (station_events db st en (Workstation.station_id s))) \<and>
          idle_time_minutes m
            = real (minutes_of ''idle'' (station_events db st en (Workstation.station_id s))))
       (workstations db) sms \<and>
     total_productive_time_minutes fm = real (minutes_of ''working'' (window_events db st en)) \<and>
     FactoryMetrics.total_idle_time_minutes fm = real (minutes_of ''idle'' (window_events db st en)) \<and>
     average_production_rate fm
       = fround2 ops (float_rate ops (sum_units (window_events db st en))
                        (minutes_of ''working'' (window_events db st en))) \<and>
     average_worker_utilization fm
       = fround2 ops (float_mean ops (map WorkerMetrics.utilization_percentage
                            (filter (\<lambda>m. 0 < WorkerMetrics.event_count m) wms))) \<and>
     average_workstation_utilization fm
       = fround2 ops (float_mean ops (map WorkstationMetrics.utilization_percentage
                            (filter (\<lambda>m. 0 < WorkstationMetrics.event_count m) sms)))"
proof -
  define wms where
    "wms = map (\<lambda>w. worker_row ops w (worker_events db st en (Worker.worker_id w))) (workers db)"
  define sms where
    "sms = map (\<lambda>s. station_row ops s (station_events db st en (Workstation.station_id s)))
             (workstations db)"
  have w: "compute_worker_metrics ops db None st en = Inr wms"
    by (simp add: compute_worker_metrics_value selected_workers_def wms_def)
  have s: "compute_workstation_metrics ops db None st en = Inr sms"
    by (simp add: compute_workstation_metrics_value selected_stations_def sms_def)
  obtain fm where fm: "compute_factory_metrics ops db st en = Inr fm"
    by (simp add: compute_factory_metrics_value)
  have lw: "list_all2
       (\<lambda>w m.
          WorkerMetrics.utilization_percentage m
            = fround2 ops (full_precision_utilization ops db st en (Worker.worker_id w)) \<and>
          units_per_hour m
            = fround2 ops (float_rate ops
                (sum_units (worker_events db st en (Worker.worker_id w)))
                (minutes_of ''working'' (worker_events db st en (Worker.worker_id w)))) \<and>
          total_active_time_minutes m
            = real (minutes_of ''working'' (worker_events db st en (Worker.worker_id w))) \<and>
          WorkerMetrics.total_idle_time_minutes m
            = real (minutes_of ''idle'' (worker_events db st en (Worker.worker_id w))) \<and>
          total_absent_time_minutes m
            = real (minutes_of ''absent'' (worker_events db st en (Worker.worker_id w))))
       (workers db) wms"
    unfolding wms_def
    by (rule list_all2_map_right) (simp add: full_precision_utilization_def)
  have ls: "list_all2
       (\<lambda>s m.
          WorkstationMetrics.utilization_percentage m
            = fround2 ops (float_utilization ops
                (minutes_of ''working'' (station_events db st en (Workstation.station_id s)))
                (minutes_of ''idle'' (station_events db st en (Workstation.station_id s)))) \<and>
          throughput_rate m
            = fround2 ops (float_rate ops
                (sum_units (station_events db st en (Workstation.station_id s)))
                (minutes_of ''working'' (station_events db st en (Workstation.station_id s))
                 + minutes_of ''idle'' (station_events db st en (Workstation.station_id s)))) \<and>
          occupancy_time_minutes m
            = real (minutes_of ''working'' (station_events db st en (Workstation.station_id s))
                 + minutes_of ''idle'' (station_events db st en (Workstation.station_id s))) \<and>
          working_time_minutes m
            = real (minutes_of ''working'' (station_events db st en (Workstation.station_id s))) \<and>
          idle_time_minutes m
            = real (minutes_of ''idle'' (station_events db st en (Workstation.station_id s))))
       (workstations db) sms"
    unfolding sms_def
    by (rule list_all2_map_right) simp
  have f1: "average_production_rate fm
       = fround2 ops (float_rate ops (sum_units (window_events db st en))
                        (minutes_of ''working'' (window_events db st en)))"
    and f2: "average_worker_utilization fm
       = fround2 ops (float_mean ops (map WorkerMetrics.utilization_percentage
                            (filter (\<lambda>m. 0 < WorkerMetrics.event_count m) wms)))"
    and f3: "average_workstation_utilization fm
       = fround2 ops (float_mean ops (map WorkstationMetrics.utilization_percentage
                            (filter (\<lambda>m. 0 < WorkstationMetrics.event_count m) sms)))"
    and f4: "total_productive_time_minutes fm
       = real (minutes_of ''working'' (window_events db st en))"
    and f5: "FactoryMetrics.total_idle_time_minutes fm
       = real (minutes_of ''idle'' (window_events db st en))"
    using fm unfolding compute_factory_metrics_value wms_def sms_def
    by (auto simp only: sum.inject FactoryMetrics.select_convs)
  show ?thesis
    by (rule exI [of _ fm], rule exI [of _ wms], rule exI [of _ sms])
       (intro conjI fm w s lw ls f4 f5 f1 f2 f3)
qed

subsection \<open>The single-worker query\<close>

lemma filter_unique_key:
  "distinct (map f xs) \<Longrightarrow> x \<in> set xs \<Longrightarrow> filter (\<lambda>y. f y = f x) xs = [x]"
proof (induction xs)
  case Nil
  then show ?case by simp
next
  case (Cons a xs)
  show ?case
  proof (cases "a = x")
    case True
    with Cons.prems have "f x \<notin> f ` set xs" by simp
    then have "\<forall>y\<in>set xs. f y \<noteq> f x" by (metis imageI)
    then have "filter (\<lambda>y. f y = f x) xs = []" by (simp add: filter_empty_conv)
    with True show ?thesis by simp
  next
    case False
    with Cons.prems have "x \<in> set xs" "f a \<noteq> f x" by auto
    with Cons show ?thesis by simp
  qed
qed

lemma worker_row_no_events:
  "fround2 ops 0 = 0 \<Longrightarrow>
   worker_row ops w [] = zero_worker_metrics (Worker.worker_id w) (Worker.name w)"
  by (simp add: worker_row_def zero_worker_metrics_def count_type_def sum_units_def
      float_utilization_def float_rate_def minutes_of_def)

text \<open>
  Claim C9.  \<open>get_worker_metrics\<close> never raises, whatever the operations on floats
  return.  For a non-empty \<open>worker_id\<close> (the path parameter of the route is a non-empty
  path segment) the record carries the requested identifier; when no worker is
  registered under it, the record is the zeroed one with the name \<open>Unknown\<close>; when a
  worker is registered under it (identifiers being unique, as the column constraint has
  it) and has no event in the window, the record is the zeroed one with the registered
  name, \<open>round(0.0, 2)\<close> being \<open>0.0\<close> as it is in binary64.  The two cases differ in the
  name only.
\<close>

theorem single_worker_query_never_fails:
  "(\<exists>m. get_worker_metrics ops db wid st en = Inr m \<and>
      (wid \<noteq> [] \<longrightarrow>
         WorkerMetrics.worker_id m = wid \<and>
         (wid \<notin> set (map Worker.worker_id (workers db))
            \<longrightarrow> m = zero_worker_metrics wid ''Unknown'') \<and>
         (\<forall>w\<in>set (workers db).
            fround2 ops 0 = 0 \<and>
            distinct (map Worker.worker_id (workers db)) \<and> Worker.worker_id w = wid \<and>
            \<not> has_worker_event db st en wid
            \<longrightarrow> m = zero_worker_metrics wid (Worker.name w)))) \<and>
   fround2 (binary64 version) 0 = 0"
  (is "?answer \<and> ?zero")
proof
  show ?zero
    by (rule fround2_binary64_zero)
  show ?answer
  proof (cases "wid = []")
    case True
    then show ?thesis
      by (simp add: get_worker_metrics_def compute_worker_metrics_value split: list.split)
  next
    case False
    then have sel: "selected_workers db (Some wid) = filter (\<lambda>w. Worker.worker_id w = wid) (workers db)"
      by (simp add: selected_workers_def)
    show ?thesis
    proof (cases "filter (\<lambda>w. Worker.worker_id w = wid) (workers db)")
      case Nil
      then have "wid \<notin> set (map Worker.worker_id (workers db))"
        by (auto simp: filter_empty_conv)
      with Nil False show ?thesis
        by (auto simp: get_worker_metrics_def compute_worker_metrics_value sel
            zero_worker_metrics_def)
    next
      case (Cons w0 rest)
      then have "w0 \<in> set (filter (\<lambda>w. Worker.worker_id w = wid) (workers db))"
        by simp
      then have w0: "w0 \<in> set (workers db)" "Worker.worker_id w0 = wid"
        by simp_all
      have res: "get_worker_metrics ops db wid st en
          = Inr (worker_row ops w0 (worker_events db st en wid))"
        by (simp add: get_worker_metrics_def compute_worker_metrics_value sel Cons w0)
      have known: "wid \<in> set (map Worker.worker_id (workers db))"
        using w0 by force
      have zero: "worker_row ops w0 (worker_events db st en wid) = zero_worker_metrics wid (Worker.name w)"
        if "w \<in> set (workers db)" "distinct (map Worker.worker_id (workers db))"
          "Worker.worker_id w = wid" "\<not> has_worker_event db st en wid" "fround2 ops 0 = 0" for w
      proof -
        from filter_unique_key [OF that(2) that(1)] that(3) Cons have "w0 = w" by simp
        moreover from that(4) have "worker_events db st en wid = []"
          by (simp add: event_count_positive)
        ultimately show ?thesis using that(3,5) by (simp add: worker_row_no_events)
      qed
      show ?thesis
        unfolding res using known w0 zero by auto
    qed
  qed
qed

text \<open>
  Claim C9 for a registered worker without events and for an unregistered identifier.
\<close>

theorem single_worker_query_never_fails_witness:
  "\<forall>version.
     get_worker_metrics (binary64 version) crew_db ''W2'' None None
       = Inr (zero_worker_metrics ''W2'' ''Bob'') \<and>
     get_worker_metrics (binary64 version) crew_db ''W9'' None None
       = Inr (zero_worker_metrics ''W9'' ''Unknown'')"
proof
  fix version
  from single_worker_query_never_fails [of "binary64 version" crew_db "''W2''" None None version]
  have a: "get_worker_metrics (binary64 version) crew_db ''W2'' None None
      = Inr (zero_worker_metrics ''W2'' ''Bob'')"
    using crew_db_events(14) by (auto simp: crew_db_events(11) simp del: binary64_simps)
  from single_worker_query_never_fails [of "binary64 version" crew_db "''W9''" None None version]
  have b: "get_worker_metrics (binary64 version) crew_db ''W9'' None None
      = Inr (zero_worker_metrics ''W9'' ''Unknown'')"
    by (auto simp: crew_db_events(11) simp del: binary64_simps)
  from a b show "get_worker_metrics (binary64 version) crew_db ''W2'' None None
       = Inr (zero_worker_metrics ''W2'' ''Bob'') \<and>
     get_worker_metrics (binary64 version) crew_db ''W9'' None None
       = Inr (zero_worker_metrics ''W9'' ''Unknown'')" by simp
qed

end
